theory Spec2Isabelle
  imports Main "HOL-Library.AList" "HOL-Library.Multiset"
begin

unbundle bit_operations_syntax

section \<open>Python values used by the ledger\<close>

text \<open>
  Python \<open>str\<close> values are modelled as \<^typ>\<open>string\<close>; a character stands for the code point
  of the same number (0..255).  A \<open>bytes\<close> object is a list of naturals below 256.
  Python's unbounded \<open>int\<close> is \<^typ>\<open>int\<close>.  Exceptions are values of \<open>py_error\<close>.
\<close>

datatype py_error = ValueError | IndexError | RuntimeError string

type_synonym bytes = "nat list"

subsection \<open>\<open>bytes.hex()\<close>, \<open>bytes.fromhex\<close>, \<open>int(s, 16)\<close>, \<open>str(int)\<close>\<close>

definition hexdigits :: string where
  "hexdigits = ''0123456789abcdef''"

definition hex_byte :: "nat \<Rightarrow> string" where
  "hex_byte b = [hexdigits ! (b div 16), hexdigits ! (b mod 16)]"

definition bytes_hex :: "bytes \<Rightarrow> string" where
  "bytes_hex bs = concat (map hex_byte bs)"

definition digit_value :: "nat \<Rightarrow> nat option" where
  "digit_value n =
     (if 48 \<le> n \<and> n \<le> 57 then Some (n - 48)
      else if 97 \<le> n \<and> n \<le> 102 then Some (n - 87)
      else if 65 \<le> n \<and> n \<le> 70 then Some (n - 55)
      else None)"

definition hexval :: "char \<Rightarrow> nat option" where
  "hexval c = digit_value (of_char c)"

definition is_space :: "char \<Rightarrow> bool" where
  "is_space c = (of_char c \<in> {9, 10, 11, 12, 13, 32 :: nat})"

text \<open>
  \<open>bytes.fromhex\<close>: ASCII whitespace is skipped between byte pairs; every byte is two hex
  digits of either case; anything else raises \<open>ValueError\<close>.
\<close>

fun bytes_fromhex :: "string \<Rightarrow> py_error + bytes" where
  "bytes_fromhex [] = Inr []"
| "bytes_fromhex (c # cs) =
     (if is_space c then bytes_fromhex cs
      else (case cs of
              [] \<Rightarrow> Inl ValueError
            | d # r \<Rightarrow>
                (case hexval c of
                   None \<Rightarrow> Inl ValueError
                 | Some hi \<Rightarrow>
                     (case hexval d of
                        None \<Rightarrow> Inl ValueError
                      | Some lo \<Rightarrow>
                          (case bytes_fromhex r of
                             Inl e \<Rightarrow> Inl e
                           | Inr bs \<Rightarrow> Inr ((16 * hi + lo) # bs))))))"

text \<open>
  \<open>int(s, 16)\<close> on a string of hex digits.  The ledger only feeds it \<open>hexdigest()\<close> output and
  the constant \<open>TARGET_HEX\<close>; the other spellings Python accepts (sign, \<open>0x\<close>, underscores,
  surrounding blanks) do not occur and are not modelled: they read as \<open>None\<close>.
\<close>

fun int16_acc :: "string \<Rightarrow> nat \<Rightarrow> nat option" where
  "int16_acc [] acc = Some acc"
| "int16_acc (c # cs) acc =
     (case hexval c of None \<Rightarrow> None | Some d \<Rightarrow> int16_acc cs (16 * acc + d))"

definition int16 :: "string \<Rightarrow> nat option" where
  "int16 s = (if s = [] then None else int16_acc s 0)"

definition digit_char :: "nat \<Rightarrow> char" where
  "digit_char d = ''0123456789'' ! d"

fun str_nat :: "nat \<Rightarrow> string" where
  "str_nat n = (if n < 10 then [digit_char n] else str_nat (n div 10) @ [digit_char (n mod 10)])"

declare str_nat.simps [simp del]

definition str_int :: "int \<Rightarrow> string" where
  "str_int i = (if i < 0 then CHR ''-'' # str_nat (nat (- i)) else str_nat (nat i))"

subsection \<open>\<open>json.dumps(..., sort_keys=True, separators=(",", ":"))\<close> and \<open>.encode("utf-8")\<close>\<close>

text \<open>
  With the default \<open>ensure_ascii=True\<close> a string is written between double quotes; the quote
  and the backslash are escaped with a backslash, the control characters 8, 9, 10, 12, 13
  have their short escapes, and every other character outside \<open>' '..'~'\<close> is written
  \<open>\u00XX\<close>.
\<close>

definition json_escape_char :: "char \<Rightarrow> string" where
  "json_escape_char c =
     (if of_char c = (34::nat) then [CHR 0x5C, CHR 0x22]
      else if of_char c = (92::nat) then [CHR 0x5C, CHR 0x5C]
      else if of_char c = (10::nat) then [CHR 0x5C, CHR ''n'']
      else if of_char c = (13::nat) then [CHR 0x5C, CHR ''r'']
      else if of_char c = (9::nat) then [CHR 0x5C, CHR ''t'']
      else if of_char c = (8::nat) then [CHR 0x5C, CHR ''b'']
      else if of_char c = (12::nat) then [CHR 0x5C, CHR ''f'']
      else if (of_char c :: nat) < 32 \<or> 126 < (of_char c :: nat)
        then CHR 0x5C # ''u00'' @ hex_byte (of_char c)
      else [c])"

definition json_str :: "string \<Rightarrow> string" where
  "json_str s = CHR 0x22 # concat (map json_escape_char s) @ [CHR 0x22]"

definition json_key :: "string \<Rightarrow> string" where
  "json_key k = json_str k @ '':''"

fun join_comma :: "string list \<Rightarrow> string" where
  "join_comma [] = []"
| "join_comma [x] = x"
| "join_comma (x # y # r) = x @ '','' @ join_comma (y # r)"

definition json_list :: "string list \<Rightarrow> string" where
  "json_list xs = ''['' @ join_comma xs @ '']''"

definition json_dict :: "string list \<Rightarrow> string" where
  "json_dict kvs = ''{'' @ join_comma kvs @ ''}''"

definition utf8_char :: "char \<Rightarrow> bytes" where
  "utf8_char c =
     (if (of_char c :: nat) < 128 then [of_char c]
      else [192 + of_char c div 64, 128 + of_char c mod 64])"

definition encode_utf8 :: "string \<Rightarrow> bytes" where
  "encode_utf8 s = concat (map utf8_char s)"

subsection \<open>\<open>hashlib.sha256\<close> (FIPS 180-4), on 32-bit words kept as naturals\<close>

definition add32 :: "nat \<Rightarrow> nat \<Rightarrow> nat" where
  "add32 x y = (x + y) mod 4294967296"

definition rotr :: "nat \<Rightarrow> nat \<Rightarrow> nat" where
  "rotr n x = x div 2 ^ n + (x mod 2 ^ n) * 2 ^ (32 - n)"

definition ssig0 :: "nat \<Rightarrow> nat" where
  "ssig0 x = (rotr 7 x XOR rotr 18 x) XOR (x div 2 ^ 3)"

definition ssig1 :: "nat \<Rightarrow> nat" where
  "ssig1 x = (rotr 17 x XOR rotr 19 x) XOR (x div 2 ^ 10)"

definition bsig0 :: "nat \<Rightarrow> nat" where
  "bsig0 x = (rotr 2 x XOR rotr 13 x) XOR rotr 22 x"

definition bsig1 :: "nat \<Rightarrow> nat" where
  "bsig1 x = (rotr 6 x XOR rotr 11 x) XOR rotr 25 x"

definition ch :: "nat \<Rightarrow> nat \<Rightarrow> nat \<Rightarrow> nat" where
  "ch x y z = (x AND y) XOR ((4294967295 - x) AND z)"

definition maj :: "nat \<Rightarrow> nat \<Rightarrow> nat \<Rightarrow> nat" where
  "maj x y z = ((x AND y) XOR (x AND z)) XOR (y AND z)"

definition K256 :: "nat list" where
  "K256 = [
   1116352408, 1899447441, 3049323471, 3921009573, 961987163, 1508970993, 2453635748, 2870763221,
   3624381080, 310598401, 607225278, 1426881987, 1925078388, 2162078206, 2614888103, 3248222580,
   3835390401, 4022224774, 264347078, 604807628, 770255983, 1249150122, 1555081692, 1996064986,
   2554220882, 2821834349, 2952996808, 3210313671, 3336571891, 3584528711, 113926993, 338241895,
   666307205, 773529912, 1294757372, 1396182291, 1695183700, 1986661051, 2177026350, 2456956037,
   2730485921, 2820302411, 3259730800, 3345764771, 3516065817, 3600352804, 4094571909, 275423344,
   430227734, 506948616, 659060556, 883997877, 958139571, 1322822218, 1537002063, 1747873779,
   1955562222, 2024104815, 2227730452, 2361852424, 2428436474, 2756734187, 3204031479, 3329325298]"

definition H256 :: "nat list" where
  "H256 = [1779033703, 3144134277, 1013904242, 2773480762,
           1359893119, 2600822924, 528734635, 1541459225]"

fun be32 :: "bytes \<Rightarrow> nat list" where
  "be32 (a # b # c # d # r) = (((a * 256 + b) * 256 + c) * 256 + d) # be32 r"
| "be32 _ = []"

definition sched_word :: "nat \<Rightarrow> nat \<Rightarrow> nat \<Rightarrow> nat \<Rightarrow> nat" where
  "sched_word w2 w7 w15 w16 = add32 (add32 (add32 (ssig1 w2) w7) (ssig0 w15)) w16"

fun sched_extend :: "nat \<Rightarrow> nat list \<Rightarrow> nat list"
  and sched_step :: "nat \<Rightarrow> nat list \<Rightarrow> nat \<Rightarrow> nat list" where
  "sched_extend 0 ws = []"
| "sched_extend (Suc n) ws =
     sched_step n (tl ws) (sched_word (ws ! 14) (ws ! 9) (ws ! 1) (ws ! 0))"
| "sched_step n ws w = w # sched_extend n (ws @ [w])"

definition sched :: "nat list \<Rightarrow> nat list" where
  "sched ws = ws @ sched_extend 48 ws"

definition rnd_out :: "nat \<Rightarrow> nat \<Rightarrow> nat list \<Rightarrow> nat list" where
  "rnd_out t1 t2 s =
     [add32 t1 t2, s ! 0, s ! 1, s ! 2, add32 (s ! 3) t1, s ! 4, s ! 5, s ! 6]"

definition rnd :: "nat list \<Rightarrow> nat \<times> nat \<Rightarrow> nat list" where
  "rnd s kw = rnd_out
     (add32 (add32 (add32 (add32 (s ! 7) (bsig1 (s ! 4))) (ch (s ! 4) (s ! 5) (s ! 6))) (fst kw))
        (snd kw))
     (add32 (bsig0 (s ! 0)) (maj (s ! 0) (s ! 1) (s ! 2))) s"

definition compress :: "nat list \<Rightarrow> bytes \<Rightarrow> nat list" where
  "compress hs blk = map2 add32 hs (foldl rnd hs (zip K256 (sched (be32 blk))))"

fun sha_blocks :: "nat \<Rightarrow> nat list \<Rightarrow> bytes \<Rightarrow> nat list" where
  "sha_blocks 0 hs bs = hs"
| "sha_blocks (Suc n) hs bs = sha_blocks n (compress hs (take 64 bs)) (drop 64 bs)"

definition be_bytes4 :: "nat \<Rightarrow> bytes" where
  "be_bytes4 n = [n div 16777216 mod 256, n div 65536 mod 256, n div 256 mod 256, n mod 256]"

definition be_bytes8 :: "nat \<Rightarrow> bytes" where
  "be_bytes8 n = be_bytes4 (n div 4294967296) @ be_bytes4 (n mod 4294967296)"

definition sha_pad :: "bytes \<Rightarrow> bytes" where
  "sha_pad m =
     m @ [128] @ replicate ((119 - length m mod 64) mod 64) 0 @ be_bytes8 (8 * length m)"

definition sha256_digest :: "bytes \<Rightarrow> bytes" where
  "sha256_digest m =
     concat (map be_bytes4 (sha_blocks (length (sha_pad m) div 64) H256 (sha_pad m)))"

text \<open>\<open>crypto.py\<close>\<close>

definition sha256_bytes :: "bytes \<Rightarrow> bytes" where
  "sha256_bytes data = sha256_digest data"

definition sha256_hex :: "bytes \<Rightarrow> string" where
  "sha256_hex data = bytes_hex (sha256_digest data)"

section \<open>Core entities (\<open>models.py\<close>)\<close>

record TxOutput =
  asset_id :: string
  pubkey_hash :: string
  portion :: int

record TxInput =
  txid_ref :: string
  index :: int
  pubkey :: string
  signature :: string

record Transaction =
  inputs :: "TxInput list"
  outputs :: "TxOutput list"
  txid :: string

record BlockHeader =
  height :: int
  prev_hash :: string
  hdr_merkle_root :: string
  nonce :: int

record Block =
  header :: BlockHeader
  txs :: "Transaction list"

definition TxOutput_to_dict :: "TxOutput \<Rightarrow> string" where
  "TxOutput_to_dict out = json_dict
     [json_key ''asset_id'' @ json_str (asset_id out),
      json_key ''portion'' @ str_int (portion out),
      json_key ''pubkey_hash'' @ json_str (pubkey_hash out)]"

definition TxInput_to_dict :: "bool \<Rightarrow> TxInput \<Rightarrow> string" where
  "TxInput_to_dict include_signature inp = json_dict
     ([json_key ''index'' @ str_int (index inp),
       json_key ''pubkey'' @ json_str (pubkey inp)]
      @ (if include_signature then [json_key ''signature'' @ json_str (signature inp)] else [])
      @ [json_key ''txid_ref'' @ json_str (txid_ref inp)])"

definition serialize :: "bool \<Rightarrow> TxInput list \<Rightarrow> TxOutput list \<Rightarrow> bytes" where
  "serialize include_signatures ins outs = encode_utf8 (json_dict
     [json_key ''inputs'' @ json_list (map (TxInput_to_dict include_signatures) ins),
      json_key ''outputs'' @ json_list (map TxOutput_to_dict outs)])"

definition compute_txid :: "TxInput list \<Rightarrow> TxOutput list \<Rightarrow> string" where
  "compute_txid ins outs = sha256_hex (serialize True ins outs)"

definition message_hash :: "Transaction \<Rightarrow> string" where
  "message_hash tx = sha256_hex (serialize False (inputs tx) (outputs tx))"

text \<open>The dataclass constructor: \<open>__post_init__\<close> fills in \<open>txid\<close>.\<close>

definition new_Transaction :: "TxInput list \<Rightarrow> TxOutput list \<Rightarrow> Transaction" where
  "new_Transaction ins outs = \<lparr>inputs = ins, outputs = outs, txid = compute_txid ins outs\<rparr>"

definition BlockHeader_to_dict :: "BlockHeader \<Rightarrow> string" where
  "BlockHeader_to_dict hdr = json_dict
     [json_key ''height'' @ str_int (height hdr),
      json_key ''merkle_root'' @ json_str (hdr_merkle_root hdr),
      json_key ''nonce'' @ str_int (nonce hdr),
      json_key ''prev_hash'' @ json_str (prev_hash hdr)]"

definition BlockHeader_hash :: "BlockHeader \<Rightarrow> string" where
  "BlockHeader_hash hdr = sha256_hex (encode_utf8 (BlockHeader_to_dict hdr))"

section \<open>Wallets (\<open>wallet.py\<close>)\<close>

text \<open>
  A wallet is its verifying key, as the bytes of \<open>vk.to_string()\<close>.  The ECDSA library is
  not part of the repository: \<open>Wallet.verify\<close> takes it as the parameter \<open>E\<close>, where
  \<open>E pk sg m\<close> says that \<open>VerifyingKey.from_string(pk).verify(sg, m)\<close> returns normally.
  Every exception, also that of a malformed hex string, makes \<open>Wallet.verify\<close> answer
  \<open>False\<close>.
\<close>

record Wallet =
  vk :: bytes

type_synonym ecdsa = "bytes \<Rightarrow> bytes \<Rightarrow> bytes \<Rightarrow> bool"

definition Wallet_pubkey_hash :: "Wallet \<Rightarrow> string" where
  "Wallet_pubkey_hash w = sha256_hex (vk w)"

definition Wallet_verify :: "ecdsa \<Rightarrow> string \<Rightarrow> string \<Rightarrow> string \<Rightarrow> bool" where
  "Wallet_verify E pubkey_hex msg_hash_hex signature_hex =
     (case bytes_fromhex pubkey_hex of
        Inl _ \<Rightarrow> False
      | Inr pk \<Rightarrow>
          (case bytes_fromhex signature_hex of
             Inl _ \<Rightarrow> False
           | Inr sg \<Rightarrow>
               (case bytes_fromhex msg_hash_hex of
                  Inl _ \<Rightarrow> False
                | Inr m \<Rightarrow> E pk sg m)))"

section \<open>Merkle root and genesis (\<open>utils.py\<close>)\<close>

fun fromhex_all :: "string list \<Rightarrow> py_error + bytes list" where
  "fromhex_all [] = Inr []"
| "fromhex_all (t # ts) =
     (case bytes_fromhex t of
        Inl e \<Rightarrow> Inl e
      | Inr b \<Rightarrow> (case fromhex_all ts of Inl e \<Rightarrow> Inl e | Inr bs \<Rightarrow> Inr (b # bs)))"

text \<open>One pass of the \<open>for i in range(0, len(level), 2)\<close> loop.\<close>

fun new_level :: "bytes list \<Rightarrow> bytes list" where
  "new_level [] = []"
| "new_level [left] = [sha256_bytes (left @ left)]"
| "new_level (left # right # rest) = sha256_bytes (left @ right) # new_level rest"

text \<open>The \<open>while len(level) > 1\<close> loop.\<close>

function merkle_levels :: "bytes list \<Rightarrow> bytes list" where
  "merkle_levels level = (if 1 < length level then merkle_levels (new_level level) else level)"
  by pat_completeness auto

termination
proof (relation "measure length")
  fix level :: "bytes list"
  assume "1 < length level"
  moreover have "length (new_level xs) = (length xs + 1) div 2" for xs :: "bytes list"
    by (induction xs rule: new_level.induct) simp_all
  ultimately show "(new_level level, level) \<in> measure length"
    by simp
qed simp

declare merkle_levels.simps [simp del]

definition merkle_root :: "string list \<Rightarrow> py_error + string" where
  "merkle_root txids =
     (if txids = [] then Inr (sha256_hex [])
      else (case fromhex_all txids of
              Inl e \<Rightarrow> Inl e
            | Inr level \<Rightarrow>
                (case merkle_levels level of
                   [] \<Rightarrow> Inl IndexError
                 | root # _ \<Rightarrow> Inr (bytes_hex root))))"

definition zero_hash :: string where
  "zero_hash = replicate 64 (CHR ''0'')"

definition genesis_tx :: "nat \<Rightarrow> Wallet \<Rightarrow> Transaction" where
  "genesis_tx i w = new_Transaction []
     [\<lparr>asset_id = ''asset-'' @ str_int (int i), pubkey_hash = Wallet_pubkey_hash w, portion = 100\<rparr>]"

text \<open>
  \<open>create_genesis\<close>: \<open>initial_wallets[i]\<close> raises \<open>IndexError\<close> when there are fewer wallets
  than assets; nothing has been changed by then.  A negative \<open>num_assets\<close> gives an empty
  range.
\<close>

definition create_genesis :: "int \<Rightarrow> Wallet list \<Rightarrow> py_error + Block" where
  "create_genesis num_assets initial_wallets =
     (if length initial_wallets < nat num_assets then Inl IndexError
      else (case merkle_root
                   (map txid (map2 genesis_tx [0..<nat num_assets] initial_wallets)) of
              Inl e \<Rightarrow> Inl e
            | Inr root \<Rightarrow>
                Inr \<lparr>header = \<lparr>height = 0, prev_hash = zero_hash, hdr_merkle_root = root,
                                nonce = 0\<rparr>,
                     txs = map2 genesis_tx [0..<nat num_assets] initial_wallets\<rparr>))"

section \<open>The UTXO set (\<open>utxo.py\<close>)\<close>

text \<open>
  A Python \<open>dict\<close> is an association list in insertion order: storing under a key that is
  present replaces the value in place, a new key goes to the end, and \<open>pop\<close> removes the
  entry.
\<close>

type_synonym UTXOSet = "((string \<times> int) \<times> TxOutput) list"

definition add_output :: "UTXOSet \<Rightarrow> string \<Rightarrow> int \<Rightarrow> TxOutput \<Rightarrow> UTXOSet" where
  "add_output u t i out = AList.update (t, i) out u"

definition remove_output :: "UTXOSet \<Rightarrow> string \<Rightarrow> int \<Rightarrow> UTXOSet" where
  "remove_output u t i = AList.delete (t, i) u"

definition get_output :: "UTXOSet \<Rightarrow> string \<Rightarrow> int \<Rightarrow> TxOutput option" where
  "get_output u t i = map_of u (t, i)"

section \<open>The ledger (\<open>blockchain.py\<close>)\<close>

definition TARGET_HEX :: string where
  "TARGET_HEX = ''00000fffffffffffffffffffffffffffffffffffffffffffffffffffffffffff''"

definition MAX_TX_PER_BLOCK :: nat where
  "MAX_TX_PER_BLOCK = 8"

text \<open>
  The in-memory state of a \<open>Blockchain\<close> object.  The calls into the document store
  (\<open>block_db\<close>, \<open>utxo_db\<close>) return nothing the ledger reads.  The inserts catch their own
  exceptions; \<open>utxo_db.delete_utxo\<close> does not, and a store that fails is outside the model:
  the store is taken to answer.  So these calls leave this state alone and are left out; the
  state a ledger starts from is whatever the store held, that is, arbitrary.
\<close>

record Blockchain =
  blocks_by_hash :: "(string \<times> Block) list"
  height_tip_hash :: string
  utxo :: UTXOSet

definition empty_chain :: Blockchain where
  "empty_chain = \<lparr>blocks_by_hash = [], height_tip_hash = [], utxo = []\<rparr>"

definition tip :: "Blockchain \<Rightarrow> Block option" where
  "tip s = map_of (blocks_by_hash s) (height_tip_hash s)"

text \<open>\<open>for idx, out in enumerate(tx.outputs): self.utxo.add_output(tx.txid, idx, out)\<close>\<close>

fun add_outputs :: "UTXOSet \<Rightarrow> string \<Rightarrow> int \<Rightarrow> TxOutput list \<Rightarrow> UTXOSet" where
  "add_outputs u t idx [] = u"
| "add_outputs u t idx (out # outs) = add_outputs (add_output u t idx out) t (idx + 1) outs"

fun remove_inputs :: "UTXOSet \<Rightarrow> TxInput list \<Rightarrow> UTXOSet" where
  "remove_inputs u [] = u"
| "remove_inputs u (inp # ins) = remove_inputs (remove_output u (txid_ref inp) (index inp)) ins"

fun add_all_outputs :: "UTXOSet \<Rightarrow> Transaction list \<Rightarrow> UTXOSet" where
  "add_all_outputs u [] = u"
| "add_all_outputs u (tx # rest) = add_all_outputs (add_outputs u (txid tx) 0 (outputs tx)) rest"

definition add_genesis_block :: "Blockchain \<Rightarrow> Block \<Rightarrow> Blockchain" where
  "add_genesis_block s block =
     s\<lparr>blocks_by_hash := AList.update (BlockHeader_hash (header block)) block (blocks_by_hash s),
       height_tip_hash := BlockHeader_hash (header block),
       utxo := add_all_outputs (utxo s) (txs block)\<rparr>"

text \<open>
  \<open>validate_transaction\<close> is a method of the ledger object: the model hands the ledger in
  and gets it back beside the answer, so that what the method does to the ledger is part
  of its value.  A loop either raises, returns from the method, or falls through with its
  variables.
\<close>

datatype 'a flow = Raise py_error | Return "bool \<times> string" | Next 'a

definition get_output_of :: "Blockchain \<Rightarrow> string \<Rightarrow> int \<Rightarrow> TxOutput option \<times> Blockchain" where
  "get_output_of s t i = (get_output (utxo s) t i, s)"

fun check_inputs ::
  "TxInput list \<Rightarrow> string option \<Rightarrow> int \<Rightarrow> Blockchain \<Rightarrow> (string option \<times> int) flow \<times> Blockchain"
where
  "check_inputs [] aid total_in s = (Next (aid, total_in), s)"
| "check_inputs (inp # rest) aid total_in s =
     (case get_output_of s (txid_ref inp) (index inp) of
        (None, s1) \<Rightarrow>
          (Return (False, ''missing UTXO for ('' @ txid_ref inp @ '', '' @ str_int (index inp)
                            @ '')''), s1)
      | (Some u, s1) \<Rightarrow>
          (if aid \<noteq> None \<and> aid \<noteq> Some (asset_id u)
             then (Return (False, ''multiple asset_ids in inputs''), s1)
           else (case bytes_fromhex (pubkey inp) of
                   Inl e \<Rightarrow> (Raise e, s1)
                 | Inr pk \<Rightarrow>
                     (if sha256_hex pk \<noteq> pubkey_hash u
                        then (Return (False, ''pubkey hash mismatch''), s1)
                      else check_inputs rest (Some (asset_id u)) (total_in + portion u) s1))))"

fun check_outputs :: "TxOutput list \<Rightarrow> string option \<Rightarrow> int \<Rightarrow> int flow" where
  "check_outputs [] aid total_out = Next total_out"
| "check_outputs (out # rest) aid total_out =
     (if Some (asset_id out) \<noteq> aid then Return (False, ''output asset_id mismatch'')
      else check_outputs rest aid (total_out + portion out))"

fun check_signatures :: "ecdsa \<Rightarrow> string \<Rightarrow> TxInput list \<Rightarrow> bool" where
  "check_signatures E msg_hash [] = True"
| "check_signatures E msg_hash (inp # rest) =
     (if Wallet_verify E (pubkey inp) msg_hash (signature inp)
        then check_signatures E msg_hash rest else False)"

definition validate_transaction ::
  "ecdsa \<Rightarrow> Blockchain \<Rightarrow> Transaction \<Rightarrow> (py_error + bool \<times> string) \<times> Blockchain"
where
  "validate_transaction E s tx =
     (if inputs tx = [] then (Inr (True, ''coinbase/genesis tx''), s)
      else (case check_inputs (inputs tx) None 0 s of
              (Raise e, s1) \<Rightarrow> (Inl e, s1)
            | (Return r, s1) \<Rightarrow> (Inr r, s1)
            | (Next (aid, total_in), s1) \<Rightarrow>
                (case check_outputs (outputs tx) aid 0 of
                   Raise e \<Rightarrow> (Inl e, s1)
                 | Return r \<Rightarrow> (Inr r, s1)
                 | Next total_out \<Rightarrow>
                     (if total_in \<noteq> total_out
                        then (Inr (False, ''portion mismatch: in='' @ str_int total_in
                                          @ '', out='' @ str_int total_out), s1)
                      else if check_signatures E (message_hash tx) (inputs tx)
                        then (Inr (True, ''ok''), s1)
                      else (Inr (False, ''signature verification failed''), s1)))))"

definition apply_transaction :: "Blockchain \<Rightarrow> Transaction \<Rightarrow> Blockchain" where
  "apply_transaction s tx =
     s\<lparr>utxo := add_outputs (remove_inputs (utxo s) (inputs tx)) (txid tx) 0 (outputs tx)\<rparr>"

fun apply_transactions :: "Blockchain \<Rightarrow> Transaction list \<Rightarrow> Blockchain" where
  "apply_transactions s [] = s"
| "apply_transactions s (tx # rest) = apply_transactions (apply_transaction s tx) rest"

text \<open>The selection loop of \<open>mine_block\<close>, with \<open>selected\<close> as its accumulator.\<close>

fun select_valid ::
  "ecdsa \<Rightarrow> Transaction list \<Rightarrow> Transaction list \<Rightarrow> Blockchain
     \<Rightarrow> (py_error + Transaction list) \<times> Blockchain"
where
  "select_valid E [] selected s = (Inr selected, s)"
| "select_valid E (tx # rest) selected s =
     (case validate_transaction E s tx of
        (Inl e, s1) \<Rightarrow> (Inl e, s1)
      | (Inr (ok, reason), s1) \<Rightarrow>
          (if MAX_TX_PER_BLOCK \<le> length (if ok then selected @ [tx] else selected)
             then (Inr (if ok then selected @ [tx] else selected), s1)
           else select_valid E rest (if ok then selected @ [tx] else selected) s1))"

text \<open>\<open>int(h, 16) < int(TARGET_HEX, 16)\<close>\<close>

definition below_target :: "string \<Rightarrow> py_error + bool" where
  "below_target h =
     (case int16 TARGET_HEX of
        None \<Rightarrow> Inl ValueError
      | Some target_int \<Rightarrow>
          (case int16 h of None \<Rightarrow> Inl ValueError | Some v \<Rightarrow> Inr (v < target_int)))"

text \<open>
  The nonce search: \<open>while True\<close> with \<open>nonce += 1\<close>.  It stops at the first header below
  the target; a search that never finds one does not return, which is the value \<open>None\<close>.
\<close>

partial_function (option) pow_search ::
  "int \<Rightarrow> string \<Rightarrow> string \<Rightarrow> int \<Rightarrow> (py_error + BlockHeader) option"
where
  "pow_search h prev root n =
     (case below_target (BlockHeader_hash
              \<lparr>height = h, prev_hash = prev, hdr_merkle_root = root, nonce = n\<rparr>) of
        Inl e \<Rightarrow> Some (Inl e)
      | Inr ok \<Rightarrow>
          (if ok then Some (Inr \<lparr>height = h, prev_hash = prev, hdr_merkle_root = root, nonce = n\<rparr>)
           else pow_search h prev root (n + 1)))"

definition next_height :: "Blockchain \<Rightarrow> int" where
  "next_height s = (case tip s of None \<Rightarrow> 0 | Some b \<Rightarrow> height (header b) + 1)"

definition next_prev_hash :: "Blockchain \<Rightarrow> string" where
  "next_prev_hash s = (case tip s of None \<Rightarrow> zero_hash | Some b \<Rightarrow> BlockHeader_hash (header b))"

definition commit_block :: "Blockchain \<Rightarrow> BlockHeader \<Rightarrow> Transaction list \<Rightarrow> Blockchain" where
  "commit_block s hdr selected =
     apply_transactions
       (s\<lparr>blocks_by_hash :=
            AList.update (BlockHeader_hash hdr) \<lparr>header = hdr, txs = selected\<rparr> (blocks_by_hash s),
          height_tip_hash := BlockHeader_hash hdr\<rparr>)
       selected"

definition mine_block ::
  "ecdsa \<Rightarrow> Blockchain \<Rightarrow> Transaction list \<Rightarrow> ((py_error + Block) \<times> Blockchain) option"
where
  "mine_block E s pending_txs =
     (case select_valid E pending_txs [] s of
        (Inl e, s1) \<Rightarrow> Some (Inl e, s1)
      | (Inr selected, s1) \<Rightarrow>
          (if selected = [] then Some (Inl (RuntimeError ''no valid transactions to mine''), s1)
           else (case merkle_root (map txid selected) of
                   Inl e \<Rightarrow> Some (Inl e, s1)
                 | Inr root \<Rightarrow>
                     (case pow_search (next_height s1) (next_prev_hash s1) root 0 of
                        None \<Rightarrow> None
                      | Some (Inl e) \<Rightarrow> Some (Inl e, s1)
                      | Some (Inr hdr) \<Rightarrow>
                          Some (Inr \<lparr>header = hdr, txs = selected\<rparr>,
                                commit_block s1 hdr selected)))))"

text \<open>
  \<open>blocks.sort(key=..., reverse=True)\<close>: descending by key, and entries of equal key keep the
  order they had (the list is reversed, sorted stably, and reversed again).
\<close>

definition sort_reverse :: "('a \<Rightarrow> int) \<Rightarrow> 'a list \<Rightarrow> 'a list" where
  "sort_reverse key xs = rev (sort_key key (rev xs))"

text \<open>The innermost loop of \<open>trace_asset\<close>: the first matching output appends and breaks.\<close>

fun first_match :: "string \<Rightarrow> TxOutput list \<Rightarrow> bool" where
  "first_match a [] = False"
| "first_match a (out # rest) = (if asset_id out = a then True else first_match a rest)"

fun trace_txs ::
  "string \<Rightarrow> int \<Rightarrow> string \<Rightarrow> Transaction list \<Rightarrow> (int \<times> string \<times> Transaction) list
     \<Rightarrow> (int \<times> string \<times> Transaction) list"
where
  "trace_txs a h bh [] res = res"
| "trace_txs a h bh (tx # rest) res =
     trace_txs a h bh rest (if first_match a (outputs tx) then res @ [(h, bh, tx)] else res)"

fun trace_blocks ::
  "string \<Rightarrow> (string \<times> Block) list \<Rightarrow> (int \<times> string \<times> Transaction) list
     \<Rightarrow> (int \<times> string \<times> Transaction) list"
where
  "trace_blocks a [] res = res"
| "trace_blocks a ((bh, blk) # rest) res =
     trace_blocks a rest (trace_txs a (height (header blk)) bh (txs blk) res)"

definition trace_asset :: "Blockchain \<Rightarrow> string \<Rightarrow> (int \<times> string \<times> Transaction) list" where
  "trace_asset s a =
     trace_blocks a (sort_reverse (\<lambda>kv. height (header (snd kv))) (blocks_by_hash s)) []"

text \<open>
  The loop of \<open>build_chain_from_tip\<close>, with \<open>cur_hash\<close>, \<open>visited\<close> and \<open>chain\<close> as its
  variables.  An empty string is false in Python, so the walk also stops at an empty hash.
\<close>

function chain_walk ::
  "(string \<times> Block) list \<Rightarrow> string \<Rightarrow> string list \<Rightarrow> (string \<times> Block) list
     \<Rightarrow> (string \<times> Block) list"
where
  "chain_walk blocks cur_hash visited chain =
     (if cur_hash \<noteq> [] \<and> cur_hash \<notin> set visited then
        (case map_of blocks cur_hash of
           None \<Rightarrow> chain
         | Some blk \<Rightarrow>
             (if prev_hash (header blk) = zero_hash then chain @ [(cur_hash, blk)]
              else chain_walk blocks (prev_hash (header blk)) (cur_hash # visited)
                     (chain @ [(cur_hash, blk)])))
      else chain)"
  by pat_completeness auto

termination
proof (relation "measure (\<lambda>(blocks, cur_hash, visited, chain).
                   card (fst ` set blocks - set visited))")
  fix blocks :: "(string \<times> Block) list" and cur_hash visited blk
    and chain :: "(string \<times> Block) list"
  assume c: "cur_hash \<noteq> [] \<and> cur_hash \<notin> set visited"
    and m: "map_of blocks cur_hash = Some blk"
  from m have "cur_hash \<in> fst ` set blocks"
    by (metis map_of_SomeD fst_conv image_eqI)
  with c have "fst ` set blocks - set (cur_hash # visited) \<subset> fst ` set blocks - set visited"
    by auto
  then have "card (fst ` set blocks - set (cur_hash # visited))
               < card (fst ` set blocks - set visited)"
    by (intro psubset_card_mono) auto
  then show "((blocks, prev_hash (header blk), cur_hash # visited, chain @ [(cur_hash, blk)]),
              (blocks, cur_hash, visited, chain))
             \<in> measure (\<lambda>(blocks, cur_hash, visited, chain).
                   card (fst ` set blocks - set visited))"
    by simp
qed simp

declare chain_walk.simps [simp del]

definition build_chain_from_tip :: "Blockchain \<Rightarrow> (string \<times> Block) list" where
  "build_chain_from_tip s = chain_walk (blocks_by_hash s) (height_tip_hash s) [] []"

section \<open>Full nodes (\<open>node.py\<close>)\<close>

text \<open>
  Nodes hold references: to a ledger, which several nodes may share, and to their peers.
  The objects live in a store; a reference is an index into it and always names an object.
\<close>

record FullNode =
  node_id :: string
  blockchain :: nat
  mempool :: "(string \<times> Transaction) list"
  peers :: "nat list"
  last_mined_block :: "Block option"

record World =
  ledgers :: "Blockchain list"
  nodes :: "FullNode list"

definition ledger_of :: "World \<Rightarrow> nat \<Rightarrow> Blockchain" where
  "ledger_of w n = ledgers w ! blockchain (nodes w ! n)"

definition set_ledger :: "World \<Rightarrow> nat \<Rightarrow> Blockchain \<Rightarrow> World" where
  "set_ledger w n s = w\<lparr>ledgers := (ledgers w)[blockchain (nodes w ! n) := s]\<rparr>"

definition set_mempool :: "World \<Rightarrow> nat \<Rightarrow> (string \<times> Transaction) list \<Rightarrow> World" where
  "set_mempool w n mp = w\<lparr>nodes := (nodes w)[n := (nodes w ! n)\<lparr>mempool := mp\<rparr>]\<rparr>"

definition in_mempool :: "World \<Rightarrow> nat \<Rightarrow> string \<Rightarrow> bool" where
  "in_mempool w n t = (map_of (mempool (nodes w ! n)) t \<noteq> None)"

definition lacking :: "string \<Rightarrow> World \<Rightarrow> nat" where
  "lacking t w = length (filter (\<lambda>nd. map_of (mempool nd) t = None) (nodes w))"

text \<open>
  \<open>receive_transaction\<close> calls itself on every peer, in order, from inside its \<open>for\<close> loop.
  The calls still to be made are kept as a list: the peers of the node just served, before
  those left over from the callers' loops.  An exception ends all of them.  The first test
  is for totality only: a reference always names a node.
\<close>

function flood :: "ecdsa \<Rightarrow> Transaction \<Rightarrow> nat list \<Rightarrow> World \<Rightarrow> py_error option \<times> World" where
  "flood E tx [] w = (None, w)"
| "flood E tx (n # pending) w =
     (if length (nodes w) \<le> n then flood E tx pending w
      else if in_mempool w n (txid tx) then flood E tx pending w
      else (case validate_transaction E (ledger_of w n) tx of
              (Inl e, s1) \<Rightarrow> (Some e, set_ledger w n s1)
            | (Inr (ok, reason), s1) \<Rightarrow>
                (if \<not> ok then flood E tx pending (set_ledger w n s1)
                 else flood E tx (peers (nodes w ! n) @ pending)
                        (set_mempool (set_ledger w n s1) n
                           (AList.update (txid tx) tx (mempool (nodes w ! n)))))))"
  by pat_completeness auto

termination
proof (relation "measures [\<lambda>(E, tx, pending, w). lacking (txid tx) w,
                            \<lambda>(E, tx, pending, w). length pending]")
  have drop: "length (filter P (xs[n := y])) < length (filter P xs)"
    if "n < length xs" "P (xs ! n)" "\<not> P y" for P :: "FullNode \<Rightarrow> bool" and xs n y
    using that
  proof (induction xs arbitrary: n)
    case Nil
    then show ?case by simp
  next
    case (Cons x xs)
    show ?case
    proof (cases n)
      case 0
      with Cons.prems show ?thesis by simp
    next
      case (Suc m)
      with Cons.prems Cons.IH [of m] show ?thesis by simp
    qed
  qed
  fix E :: ecdsa and tx :: Transaction and n :: nat and pending :: "nat list" and w :: World
    and x :: "(py_error + bool \<times> string) \<times> Blockchain" and y s1 xa ok reason
  assume a: "\<not> length (nodes w) \<le> n" "\<not> in_mempool w n (txid tx)"
  have "lacking (txid tx)
          (set_mempool (set_ledger w n s1) n (AList.update (txid tx) tx (mempool (nodes w ! n))))
        < lacking (txid tx) w"
    unfolding lacking_def set_mempool_def set_ledger_def
    using a drop [of n "nodes w" "\<lambda>nd. map_of (mempool nd) (txid tx) = None"]
    by (simp add: in_mempool_def update_conv')
  then show "((E, tx, peers (nodes w ! n) @ pending,
               set_mempool (set_ledger w n s1) n
                 (AList.update (txid tx) tx (mempool (nodes w ! n)))),
              (E, tx, n # pending, w))
             \<in> measures [\<lambda>(E, tx, pending, w). lacking (txid tx) w,
                          \<lambda>(E, tx, pending, w). length pending]"
    by simp
qed (simp_all add: lacking_def set_ledger_def)

declare flood.simps [simp del]

definition receive_transaction ::
  "ecdsa \<Rightarrow> World \<Rightarrow> nat \<Rightarrow> Transaction \<Rightarrow> py_error option \<times> World"
where
  "receive_transaction E w n tx = flood E tx [n] w"

text \<open>The validation loop of \<open>receive_block\<close>.\<close>

fun all_valid ::
  "ecdsa \<Rightarrow> Transaction list \<Rightarrow> Blockchain \<Rightarrow> (py_error + bool) \<times> Blockchain"
where
  "all_valid E [] s = (Inr True, s)"
| "all_valid E (tx # rest) s =
     (case validate_transaction E s tx of
        (Inl e, s1) \<Rightarrow> (Inl e, s1)
      | (Inr (ok, reason), s1) \<Rightarrow> (if \<not> ok then (Inr False, s1) else all_valid E rest s1))"

fun pop_all :: "(string \<times> Transaction) list \<Rightarrow> Transaction list \<Rightarrow> (string \<times> Transaction) list" where
  "pop_all mp [] = mp"
| "pop_all mp (tx # rest) = pop_all (AList.delete (txid tx) mp) rest"

definition accept_block :: "Blockchain \<Rightarrow> Block \<Rightarrow> Blockchain" where
  "accept_block s block =
     apply_transactions
       (s\<lparr>blocks_by_hash :=
            AList.update (BlockHeader_hash (header block)) block (blocks_by_hash s),
          height_tip_hash := BlockHeader_hash (header block)\<rparr>)
       (txs block)"

text \<open>
  \<open>receive_block\<close> on the node's ledger and mempool; the answer is the exception that
  escaped, if any.
\<close>

definition receive_block_on ::
  "ecdsa \<Rightarrow> Blockchain \<Rightarrow> (string \<times> Transaction) list \<Rightarrow> Block
     \<Rightarrow> py_error option \<times> Blockchain \<times> (string \<times> Transaction) list"
where
  "receive_block_on E s mp block =
     (if height_tip_hash s \<noteq> [] \<and> prev_hash (header block) \<noteq> height_tip_hash s
        then (None, s, mp)
      else (case below_target (BlockHeader_hash (header block)) of
              Inl e \<Rightarrow> (Some e, s, mp)
            | Inr below \<Rightarrow>
                (if \<not> below then (None, s, mp)
                 else (case all_valid E (txs block) s of
                         (Inl e, s1) \<Rightarrow> (Some e, s1, mp)
                       | (Inr ok, s1) \<Rightarrow>
                           (if \<not> ok then (None, s1, mp)
                            else (None, accept_block s1 block, pop_all mp (txs block)))))))"

definition receive_block :: "ecdsa \<Rightarrow> World \<Rightarrow> nat \<Rightarrow> Block \<Rightarrow> py_error option \<times> World" where
  "receive_block E w n block =
     (case receive_block_on E (ledger_of w n) (mempool (nodes w ! n)) block of
        (r, s1, mp1) \<Rightarrow> (r, set_mempool (set_ledger w n s1) n mp1))"

section \<open>Notions used in the statements\<close>

text \<open>The tuples that one entry of the chain map contributes to \<open>trace_asset\<close>.\<close>

definition hits :: "string \<Rightarrow> string \<times> Block \<Rightarrow> (int \<times> string \<times> Transaction) list" where
  "hits a kv = map (\<lambda>tx. (height (header (snd kv)), fst kv, tx))
                 (filter (\<lambda>tx. \<exists>out\<in>set (outputs tx). asset_id out = a) (txs (snd kv)))"

text \<open>A list of entries in which each is followed by the entry its \<open>prev_hash\<close> names.\<close>

fun linked :: "(string \<times> Block) list \<Rightarrow> bool" where
  "linked [] = True"
| "linked [x] = True"
| "linked (x # y # r) = (fst y = prev_hash (header (snd x)) \<and> linked (y # r))"

text \<open>What the walk returns, for any list of hashes already visited.\<close>

definition walk_ok :: "(string \<times> Block) list \<Rightarrow> string \<Rightarrow> string list \<Rightarrow> bool" where
  "walk_ok blocks cur visited =
     (distinct (map fst (chain_walk blocks cur visited []))
      \<and> set (map fst (chain_walk blocks cur visited [])) \<inter> set visited = {}
      \<and> list_all (\<lambda>(h, b). map_of blocks h = Some b) (chain_walk blocks cur visited [])
      \<and> linked (chain_walk blocks cur visited [])
      \<and> (case chain_walk blocks cur visited [] of
           [] \<Rightarrow> cur = [] \<or> cur \<in> set visited \<or> map_of blocks cur = None
         | x # r \<Rightarrow> fst x = cur))"

text \<open>The reasons for which the walk ends after an entry.\<close>

definition stops_at :: "(string \<times> Block) list \<Rightarrow> string list \<Rightarrow> string \<times> Block \<Rightarrow> bool" where
  "stops_at blocks seen x =
     (prev_hash (header (snd x)) = zero_hash
      \<or> prev_hash (header (snd x)) = []
      \<or> prev_hash (header (snd x)) \<in> set seen
      \<or> map_of blocks (prev_hash (header (snd x))) = None)"

text \<open>
  The walk from \<open>cur\<close>, given the hashes already visited, in the words of the claim: no
  hash twice, none visited before, none empty; blocks of the map under their keys; each
  entry followed by the entry its \<open>prev_hash\<close> names; no entry but the last has a \<open>prev_hash\<close>
  of sixty-four zeros; the walk is empty when \<open>cur\<close> is empty, visited or names no block,
  and otherwise starts at \<open>cur\<close> and ends at an entry where it has to stop.
\<close>

definition walk_from ::
  "(string \<times> Block) list \<Rightarrow> string \<Rightarrow> string list \<Rightarrow> (string \<times> Block) list \<Rightarrow> bool"
where
  "walk_from blocks cur visited W =
     (distinct (map fst W)
      \<and> set (map fst W) \<inter> set visited = {}
      \<and> [] \<notin> set (map fst W)
      \<and> list_all (\<lambda>(h, b). map_of blocks h = Some b) W
      \<and> linked W
      \<and> list_all (\<lambda>x. prev_hash (header (snd x)) \<noteq> zero_hash) (butlast W)
      \<and> (case W of
           [] \<Rightarrow> cur = [] \<or> cur \<in> set visited \<or> map_of blocks cur = None
         | x # r \<Rightarrow> fst x = cur \<and> stops_at blocks (visited @ map fst W) (last W)))"

text \<open>What a flood of \<open>receive_transaction\<close> calls leaves behind, and the world after one node has
  admitted a transaction.\<close>

definition flood_ok :: "Transaction \<Rightarrow> nat list \<Rightarrow> World \<Rightarrow> py_error option \<times> World \<Rightarrow> bool" where
  "flood_ok tx pending w r =
     (fst r = None
      \<and> length (nodes (snd r)) = length (nodes w)
      \<and> ledgers (snd r) = ledgers w
      \<and> (\<forall>m<length (nodes w).
            peers (nodes (snd r) ! m) = peers (nodes w ! m)
            \<and> (\<forall>k v. map_of (mempool (nodes w ! m)) k = Some v
                  \<longrightarrow> map_of (mempool (nodes (snd r) ! m)) k = Some v))
      \<and> (\<forall>m\<in>set pending. m < length (nodes w) \<longrightarrow> in_mempool (snd r) m (txid tx)))"

definition admit :: "World \<Rightarrow> nat \<Rightarrow> Transaction \<Rightarrow> World" where
  "admit w n tx = set_mempool (set_ledger w n (ledger_of w n)) n
                    (AList.update (txid tx) tx (mempool (nodes w ! n)))"

text \<open>The sum of the portions of the unspent outputs of an asset.\<close>

definition unspent_portion :: "Blockchain \<Rightarrow> string \<Rightarrow> int" where
  "unspent_portion s a = sum_list (map portion (filter (\<lambda>out. asset_id out = a) (map snd (utxo s))))"

text \<open>
  For evaluation inside the logic: the length of a message counted in binary, and the
  digest with that length handed in.
\<close>

fun len_acc :: "'a list \<Rightarrow> nat \<Rightarrow> nat" where
  "len_acc [] n = n"
| "len_acc (x # xs) n = len_acc xs (n + 1)"

definition sha_run :: "bytes \<Rightarrow> nat \<Rightarrow> bytes" where
  "sha_run m l =
     concat (map be_bytes4
       (sha_blocks ((l + 1 + (119 - l mod 64) mod 64 + 8) div 64) H256
          (m @ [128] @ replicate ((119 - l mod 64) mod 64) 0 @ be_bytes8 (8 * l))))"

section \<open>A worked ledger\<close>

text \<open>
  The wallet whose signing key is 1 (its verifying key is the generator of secp256k1), the
  genesis block \<open>create_genesis\<close> builds for it, a transaction without inputs that pays 50
  of \<open>asset-0\<close> to the wallet whose signing key is 992046, and the block that \<open>mine_block\<close>
  finds for that transaction on top of the genesis block.  The hashes are the SHA-256
  values; they are recomputed below.
\<close>

definition wallet0 :: Wallet where
  "wallet0 = \<lparr>vk = [121, 190, 102, 126, 249, 220, 187, 172, 85, 160, 98, 149, 206, 135, 11, 7, 2, 155, 252, 219, 45, 206, 40, 217, 89, 242, 129, 91, 22, 248, 23, 152, 72, 58, 218, 119, 38, 163, 196, 101, 93, 164, 251, 252, 14, 17, 8, 168, 253, 23, 180, 72, 166, 133, 84, 25, 156, 71, 208, 143, 251, 16, 212, 184]\<rparr>"

definition genesis0 :: Block where
  "genesis0 =
     \<lparr>header = \<lparr>height = 0, prev_hash = zero_hash,
                hdr_merkle_root = ''3dcfb7a97831cc1aca740cf7574759894c12aa1222c5363a02c135b885e4079f'',
                nonce = 0\<rparr>,
      txs = [\<lparr>inputs = [],
              outputs = [\<lparr>asset_id = ''asset-0'',
                          pubkey_hash = ''09c0b2d1a486c439a87bcba6b46a7a1a23f3897cc83a94521a96da5c23bc58db'',
                          portion = 100\<rparr>],
              txid = ''3dcfb7a97831cc1aca740cf7574759894c12aa1222c5363a02c135b885e4079f''\<rparr>]\<rparr>"

definition ledger1 :: Blockchain where
  "ledger1 = add_genesis_block empty_chain genesis0"

definition tx_mint :: Transaction where
  "tx_mint =
     \<lparr>inputs = [],
      outputs = [\<lparr>asset_id = ''asset-0'',
                  pubkey_hash = ''76eafa6bc4a21bfc4c946393abf386040569de1e700cd66f2cc73341a5ee2a04'',
                  portion = 50\<rparr>],
      txid = ''c9aea761095ad1636d230b36e0c37098aa4df0d120cb9e4a2f8f3ccd1dafcd57''\<rparr>"

definition block1 :: Block where
  "block1 =
     \<lparr>header = \<lparr>height = 1,
                prev_hash = ''c503ff5f47aa15165024ce2871c50511cbbd5659cd178b242e6bdf2c224530cf'',
                hdr_merkle_root = ''c9aea761095ad1636d230b36e0c37098aa4df0d120cb9e4a2f8f3ccd1dafcd57'',
                nonce = 0\<rparr>,
      txs = [tx_mint]\<rparr>"

text \<open>No signature is checked on the paths taken below; the ECDSA parameter is arbitrary.\<close>

definition no_ecdsa :: ecdsa where
  "no_ecdsa pk sg m = False"

text \<open>Three nodes, each a peer of the other two, on one shared ledger that has its genesis.\<close>

definition mesh3 :: World where
  "mesh3 =
     \<lparr>ledgers = [ledger1],
      nodes = [\<lparr>node_id = ''F0'', blockchain = 0, mempool = [], peers = [1, 2],
                 last_mined_block = None\<rparr>,
               \<lparr>node_id = ''F1'', blockchain = 0, mempool = [], peers = [0, 2],
                 last_mined_block = None\<rparr>,
               \<lparr>node_id = ''F2'', blockchain = 0, mempool = [], peers = [0, 1],
                 last_mined_block = None\<rparr>]\<rparr>"

text \<open>The bytes of the genesis txid.\<close>

definition genesis_txid_bytes :: bytes where
  "genesis_txid_bytes = [61, 207, 183, 169, 120, 49, 204, 26, 202, 116, 12, 247, 87, 71, 89, 137, 76, 18, 170, 18, 34, 197, 54, 58, 2, 193, 53, 184, 133, 228, 7, 159]"

text \<open>
  The ledger after \<open>block1\<close> is put on top of the genesis block, the ledger of a node that
  holds \<open>block1\<close> and nothing else, and a node without peers whose chain is empty and whose
  mempool holds \<open>tx_mint\<close>.
\<close>

definition ledger2 :: Blockchain where
  "ledger2 =
     \<lparr>blocks_by_hash = [(''c503ff5f47aa15165024ce2871c50511cbbd5659cd178b242e6bdf2c224530cf'', genesis0), (''00000d4749bbb190a5d8239381f5318e23f36792fa3c8e906c6f82eac018ff88'', block1)],
      height_tip_hash = ''00000d4749bbb190a5d8239381f5318e23f36792fa3c8e906c6f82eac018ff88'',
      utxo = [((''3dcfb7a97831cc1aca740cf7574759894c12aa1222c5363a02c135b885e4079f'', 0), \<lparr>asset_id = ''asset-0'', pubkey_hash = ''09c0b2d1a486c439a87bcba6b46a7a1a23f3897cc83a94521a96da5c23bc58db'', portion = 100\<rparr>),
              ((''c9aea761095ad1636d230b36e0c37098aa4df0d120cb9e4a2f8f3ccd1dafcd57'', 0), \<lparr>asset_id = ''asset-0'', pubkey_hash = ''76eafa6bc4a21bfc4c946393abf386040569de1e700cd66f2cc73341a5ee2a04'', portion = 50\<rparr>)]\<rparr>"

definition ledger_orphan :: Blockchain where
  "ledger_orphan =
     \<lparr>blocks_by_hash = [(''00000d4749bbb190a5d8239381f5318e23f36792fa3c8e906c6f82eac018ff88'', block1)],
      height_tip_hash = ''00000d4749bbb190a5d8239381f5318e23f36792fa3c8e906c6f82eac018ff88'',
      utxo = [((''c9aea761095ad1636d230b36e0c37098aa4df0d120cb9e4a2f8f3ccd1dafcd57'', 0), \<lparr>asset_id = ''asset-0'', pubkey_hash = ''76eafa6bc4a21bfc4c946393abf386040569de1e700cd66f2cc73341a5ee2a04'', portion = 50\<rparr>)]\<rparr>"

definition lone_node :: World where
  "lone_node =
     \<lparr>ledgers = [empty_chain],
      nodes = [\<lparr>node_id = ''F0'', blockchain = 0, mempool = [(txid tx_mint, tx_mint)],
                 peers = [], last_mined_block = None\<rparr>]\<rparr>"

text \<open>
  Two transactions that \<open>validate_transaction\<close> does not accept on \<open>ledger1\<close>: one spends
  an output that is not there, one spends the genesis output with a \<open>pubkey\<close> that is not
  hex.
\<close>

definition tx_unspendable :: Transaction where
  "tx_unspendable =
     new_Transaction [\<lparr>txid_ref = ''00'', index = 0, pubkey = ''00'', signature = ''00''\<rparr>] []"

definition tx_bad_pubkey :: Transaction where
  "tx_bad_pubkey =
     new_Transaction
       [\<lparr>txid_ref = ''3dcfb7a97831cc1aca740cf7574759894c12aa1222c5363a02c135b885e4079f'',
         index = 0, pubkey = ''zz'', signature = ''00''\<rparr>] []"

text \<open>
  A block with \<open>tx_mint\<close> twice, and a block of two transactions under one txid.
\<close>

definition twice_block :: Block where
  "twice_block = \<lparr>header = header block1, txs = [tx_mint, tx_mint]\<rparr>"

definition twin_block :: Block where
  "twin_block =
     \<lparr>header = header block1,
      txs = [\<lparr>inputs = [], outputs = [\<lparr>asset_id = ''asset-1'', pubkey_hash = ''aa'', portion = 10\<rparr>,
                                      \<lparr>asset_id = ''asset-1'', pubkey_hash = ''bb'', portion = 90\<rparr>],
               txid = ''77''\<rparr>,
             \<lparr>inputs = [], outputs = [\<lparr>asset_id = ''asset-2'', pubkey_hash = ''cc'', portion = 100\<rparr>],
               txid = ''77''\<rparr>]\<rparr>"

text \<open>A chain map that holds a block under the empty string.\<close>

definition adversarial_chain :: Blockchain where
  "adversarial_chain =
     \<lparr>blocks_by_hash =
        [([], \<lparr>header = \<lparr>height = 0, prev_hash = zero_hash, hdr_merkle_root = [], nonce = 0\<rparr>,
               txs = []\<rparr>),
         (''b1'', \<lparr>header = \<lparr>height = 1, prev_hash = [], hdr_merkle_root = [], nonce = 0\<rparr>,
                  txs = []\<rparr>)],
      height_tip_hash = ''b1'', utxo = []\<rparr>"

section \<open>Validation does not touch the ledger\<close>

lemma check_inputs_frame: "snd (check_inputs ins aid total_in s) = s"
  by (induction ins arbitrary: aid total_in)
     (auto simp: get_output_of_def split: option.splits sum.splits)

lemma validate_transaction_frame: "snd (validate_transaction E s tx) = s"
proof -
  obtain r s1 where c: "check_inputs (inputs tx) None 0 s = (r, s1)"
    by (cases "check_inputs (inputs tx) None 0 s")
  with check_inputs_frame [of "inputs tx" None 0 s] have "s1 = s"
    by simp
  with c show ?thesis
    by (auto simp: validate_transaction_def split: flow.splits prod.splits)
qed

lemma validate_eq: "validate_transaction E s tx = (fst (validate_transaction E s tx), s)"
  by (metis prod.collapse validate_transaction_frame)

text \<open>
  Claim C9.  \<open>validate_transaction\<close> hands back the ledger it was given, whatever the ledger
  and the transaction are (chain map, tip pointer and UTXO set are all fields of that
  ledger), and a second call on the ledger the first call left answers what the first call
  answered: the same \<open>(ok, reason)\<close> pair, or the same exception.
\<close>

theorem validate_transaction_pure:
  "snd (validate_transaction E s tx) = s
   \<and> fst (validate_transaction E (snd (validate_transaction E s tx)) tx)
       = fst (validate_transaction E s tx)"
  by (simp add: validate_transaction_frame)

section \<open>Mining with nothing valid to mine\<close>

lemma select_valid_frame: "snd (select_valid E pending selected s) = s"
proof (induction pending arbitrary: selected)
  case Nil
  then show ?case by simp
next
  case (Cons tx rest)
  show ?case
    using Cons.IH validate_transaction_frame [of E s tx]
    by (cases "validate_transaction E s tx") (auto split: sum.splits)
qed

text \<open>Whatever exception \<open>mine_block\<close> raises, it raises it before it has changed anything.\<close>

lemma mine_block_error_frame:
  assumes "mine_block E s pending = Some (Inl e, s')"
  shows "s' = s"
proof -
  obtain r s1 where sel: "select_valid E pending [] s = (r, s1)"
    by (cases "select_valid E pending [] s")
  with select_valid_frame [of E pending "[]" s] have [simp]: "s1 = s"
    by simp
  from assms sel show ?thesis
    by (auto simp: mine_block_def split: sum.splits if_splits option.splits)
qed

lemma select_valid_nothing:
  assumes "\<And>tx r. tx \<in> set pending \<Longrightarrow> fst (validate_transaction E s tx) \<noteq> Inr (True, r)"
  shows "select_valid E pending [] s =
     (case find (\<lambda>tx. isl (fst (validate_transaction E s tx))) pending of
        None \<Rightarrow> Inr []
      | Some tx \<Rightarrow> Inl (projl (fst (validate_transaction E s tx))), s)"
  using assms
proof (induction pending)
  case Nil
  then show ?case by simp
next
  case (Cons tx rest)
  have v: "validate_transaction E s tx = (fst (validate_transaction E s tx), s)"
    by (rule validate_eq)
  show ?case
  proof (cases "fst (validate_transaction E s tx)")
    case (Inl e)
    with v have "validate_transaction E s tx = (Inl e, s)"
      by simp
    with Inl show ?thesis
      by simp
  next
    case (Inr p)
    obtain ok r where p: "p = (ok, r)"
      by (cases p)
    with Inr Cons.prems [of tx r] have "\<not> ok"
      by auto
    with Inr p v have vv: "validate_transaction E s tx = (Inr (False, r), s)"
      by simp
    have "select_valid E rest [] s =
       (case find (\<lambda>tx. isl (fst (validate_transaction E s tx))) rest of
          None \<Rightarrow> Inr []
        | Some tx \<Rightarrow> Inl (projl (fst (validate_transaction E s tx))), s)"
      using Cons.prems by (intro Cons.IH) auto
    then show ?thesis
      by (simp add: vv MAX_TX_PER_BLOCK_def)
  qed
qed

text \<open>
  Claim C6, as the code has it.  When no pending transaction validates, \<open>mine_block\<close>
  returns by raising, and the ledger it leaves is the ledger it was given: chain map, tip
  pointer and UTXO set are unchanged.  What it raises is
  \<open>RuntimeError("no valid transactions to mine")\<close> when \<open>validate_transaction\<close> answers
  \<open>(False, reason)\<close> for every pending transaction (the empty list included); when
  \<open>validate_transaction\<close> itself raises on one of them, the exception of the first such
  transaction escapes instead.  Whenever \<open>mine_block\<close> raises, the ledger is unchanged.
\<close>

theorem mine_block_no_valid_transactions:
  "((\<forall>tx\<in>set pending_txs. \<forall>r. fst (validate_transaction E s tx) \<noteq> Inr (True, r)) \<longrightarrow>
      mine_block E s pending_txs =
        Some (Inl (case find (\<lambda>tx. isl (fst (validate_transaction E s tx))) pending_txs of
                     None \<Rightarrow> RuntimeError ''no valid transactions to mine''
                   | Some tx \<Rightarrow> projl (fst (validate_transaction E s tx))), s))
   \<and> (mine_block E s pending_txs = Some (Inl e, s') \<longrightarrow> s' = s)"
proof -
  have "mine_block E s pending_txs =
        Some (Inl (case find (\<lambda>tx. isl (fst (validate_transaction E s tx))) pending_txs of
                     None \<Rightarrow> RuntimeError ''no valid transactions to mine''
                   | Some tx \<Rightarrow> projl (fst (validate_transaction E s tx))), s)"
    if "\<forall>tx\<in>set pending_txs. \<forall>r. fst (validate_transaction E s tx) \<noteq> Inr (True, r)"
    using select_valid_nothing [of pending_txs E s] that
    by (simp add: mine_block_def split: option.splits)
  then show ?thesis
    using mine_block_error_frame [of E s pending_txs e s'] by blast
qed

section \<open>Hex strings and the Merkle root of one txid\<close>

lemma hexdigit_value:
  assumes "v < 16"
  shows "hexval (hexdigits ! v) = Some v \<and> \<not> is_space (hexdigits ! v)"
proof -
  from assms have "v = 0 \<or> v = 1 \<or> v = 2 \<or> v = 3 \<or> v = 4 \<or> v = 5 \<or> v = 6 \<or> v = 7 \<or> v = 8
      \<or> v = 9 \<or> v = 10 \<or> v = 11 \<or> v = 12 \<or> v = 13 \<or> v = 14 \<or> v = 15"
    by arith
  then show ?thesis
    by (elim disjE) (simp_all add: hexdigits_def hexval_def digit_value_def is_space_def)
qed

lemma fromhex_hex:
  assumes "list_all (\<lambda>b. b < 256) bs"
  shows "bytes_fromhex (bytes_hex bs) = Inr bs"
  using assms
proof (induction bs)
  case Nil
  then show ?case by (simp add: bytes_hex_def)
next
  case (Cons b bs)
  then have b: "b div 16 < 16" "b mod 16 < 16" and ih: "bytes_fromhex (bytes_hex bs) = Inr bs"
    by (simp_all add: less_mult_imp_div_less)
  have "bytes_hex (b # bs) = hexdigits ! (b div 16) # hexdigits ! (b mod 16) # bytes_hex bs"
    by (simp add: bytes_hex_def hex_byte_def)
  with hexdigit_value [OF b(1)] hexdigit_value [OF b(2)] ih show ?case
    by simp
qed

lemma sha256_digest_bytes: "list_all (\<lambda>b. b < 256) (sha256_digest m)"
  by (simp add: sha256_digest_def be_bytes4_def list_all_iff)

lemma merkle_levels_single: "merkle_levels [b] = [b]"
  by (simp add: merkle_levels.simps)

text \<open>
  Claim C2, as the code has it.  For a list of one txid the \<open>while len(level) > 1\<close> loop of
  \<open>merkle_root\<close> is never entered: the root is the txid's bytes written back as hex, and no
  hash is taken.  A txid that is not hex raises \<open>ValueError\<close>.  For a txid that is a SHA-256
  hex digest, as every computed txid is, the root is the txid itself.
\<close>

theorem merkle_root_single:
  "merkle_root [t] = (case bytes_fromhex t of Inl e \<Rightarrow> Inl e | Inr b \<Rightarrow> Inr (bytes_hex b))
   \<and> merkle_root [sha256_hex d] = Inr (sha256_hex d)"
proof -
  have 1: "merkle_root [t] = (case bytes_fromhex t of Inl e \<Rightarrow> Inl e | Inr b \<Rightarrow> Inr (bytes_hex b))"
    for t
    by (simp add: merkle_root_def merkle_levels_single split: sum.splits)
  have "bytes_fromhex (sha256_hex d) = Inr (sha256_digest d)"
    unfolding sha256_hex_def by (rule fromhex_hex) (rule sha256_digest_bytes)
  with 1 [of "sha256_hex d"] have "merkle_root [sha256_hex d] = Inr (sha256_hex d)"
    by (simp add: sha256_hex_def)
  with 1 show ?thesis
    by simp
qed

section \<open>The genesis block\<close>

lemma map_of_add_outputs:
  "map_of (add_outputs u t idx outs) (a, b) =
     (if a = t \<and> idx \<le> b \<and> b < idx + int (length outs)
        then Some (outs ! nat (b - idx)) else map_of u (a, b))"
proof (induction outs arbitrary: u idx)
  case Nil
  then show ?case by auto
next
  case (Cons out outs)
  have "nat (b - idx) = Suc (nat (b - (idx + 1)))" if "idx + 1 \<le> b"
    using that by simp
  then show ?case
    by (auto simp: Cons.IH add_output_def update_conv')
qed

lemma find_snoc:
  "find P (xs @ [x]) = (case find P xs of Some y \<Rightarrow> Some y | None \<Rightarrow> if P x then Some x else None)"
  by (induction xs) auto

lemma map_of_add_all_outputs_last:
  "map_of (add_all_outputs u txl) (t, i) =
     (case find (\<lambda>tx. txid tx = t \<and> 0 \<le> i \<and> i < int (length (outputs tx))) (rev txl) of
        Some tx \<Rightarrow> Some (outputs tx ! nat i)
      | None \<Rightarrow> map_of u (t, i))"
proof (induction txl arbitrary: u)
  case Nil
  then show ?case by simp
next
  case (Cons x rest)
  show ?case
    by (simp add: Cons.IH find_snoc map_of_add_outputs split: option.splits)
qed

text \<open>
  Claim C5, as the code has it.  \<open>add_genesis_block\<close> has no assertion and no other way to
  fail.  On every ledger, empty or not, the chain map it leaves is the old one with the block
  put under its header hash, the tip is that hash, and the UTXO set is the old one with every
  output of every transaction of the block put under (txid, position), in order and without
  validation: at a key that several transactions of the block write, the output of the last
  of them stays, and a key that none writes keeps what it held.
\<close>

theorem add_genesis_block_any_chain:
  "map_of (blocks_by_hash (add_genesis_block s block))
     = (map_of (blocks_by_hash s))(BlockHeader_hash (header block) \<mapsto> block)
   \<and> height_tip_hash (add_genesis_block s block) = BlockHeader_hash (header block)
   \<and> map_of (utxo (add_genesis_block s block)) (t, i)
       = (case find (\<lambda>tx. txid tx = t \<and> 0 \<le> i \<and> i < int (length (outputs tx)))
                 (rev (txs block)) of
            Some tx \<Rightarrow> Some (outputs tx ! nat i)
          | None \<Rightarrow> map_of (utxo s) (t, i))"
  by (simp add: add_genesis_block_def update_conv' map_of_add_all_outputs_last)

section \<open>Blocks that do not extend the tip\<close>

lemma same_world: "w\<lparr>ledgers := ledgers w, nodes := nodes w\<rparr> = w"
  by simp

text \<open>
  Claim C4, as the code has it.  The guard is \<open>if tip_hash and prev_hash != tip_hash\<close>: on a
  node whose tip hash is not the empty string, a block whose \<open>prev_hash\<close> differs from the tip
  is dropped silently, and nothing changes: not the ledger (chain map, tip, UTXO set), not
  the mempool, not any other object.  On an empty chain the guard does not apply.
\<close>

theorem receive_block_not_extending_tip:
  assumes "height_tip_hash (ledger_of w n) \<noteq> []"
    and "prev_hash (header block) \<noteq> height_tip_hash (ledger_of w n)"
  shows "receive_block E w n block = (None, w)"
  using assms
  by (simp add: receive_block_def receive_block_on_def set_mempool_def set_ledger_def ledger_of_def)

section \<open>Proof of work of the blocks that mining and receiving store\<close>

lemma pow_search_result:
  assumes "pow_search h prev root n = Some y"
  shows "\<forall>hdr. y = Inr hdr \<longrightarrow> below_target (BlockHeader_hash hdr) = Inr True"
proof (rule pow_search.raw_induct
    [where P = "\<lambda>h prev root n y. \<forall>hdr. y = Inr hdr \<longrightarrow> below_target (BlockHeader_hash hdr) = Inr True",
      OF _ assms])
  fix f :: "int \<Rightarrow> string \<Rightarrow> string \<Rightarrow> int \<Rightarrow> (py_error + BlockHeader) option"
    and h prev root n y
  assume ih: "\<And>h prev root n y. f h prev root n = Some y
                \<Longrightarrow> \<forall>hdr. y = Inr hdr \<longrightarrow> below_target (BlockHeader_hash hdr) = Inr True"
    and b: "(case below_target (BlockHeader_hash
                \<lparr>height = h, prev_hash = prev, hdr_merkle_root = root, nonce = n\<rparr>) of
              Inl e \<Rightarrow> Some (Inl e)
            | Inr ok \<Rightarrow>
                (if ok then Some (Inr \<lparr>height = h, prev_hash = prev, hdr_merkle_root = root, nonce = n\<rparr>)
                 else f h prev root (n + 1))) = Some y"
  show "\<forall>hdr. y = Inr hdr \<longrightarrow> below_target (BlockHeader_hash hdr) = Inr True"
  proof (cases "below_target (BlockHeader_hash
                \<lparr>height = h, prev_hash = prev, hdr_merkle_root = root, nonce = n\<rparr>)")
    case (Inl e)
    with b show ?thesis by auto
  next
    case (Inr ok)
    with b ih [of h prev root "n + 1" y] show ?thesis
      by (cases ok) auto
  qed
qed

lemma pow_search_below:
  "pow_search h prev root n = Some (Inr hdr) \<Longrightarrow> below_target (BlockHeader_hash hdr) = Inr True"
  using pow_search_result by blast

lemma apply_transactions_chain:
  "blocks_by_hash (apply_transactions s txl) = blocks_by_hash s
   \<and> height_tip_hash (apply_transactions s txl) = height_tip_hash s"
  by (induction txl arbitrary: s) (simp_all add: apply_transaction_def)

lemma all_valid_frame: "snd (all_valid E txl s) = s"
proof (induction txl)
  case Nil
  then show ?case by simp
next
  case (Cons tx rest)
  then show ?case
    using validate_eq [of E s tx]
    by (cases "fst (validate_transaction E s tx)") (auto split: prod.splits)
qed

lemma mine_block_stores:
  assumes "mine_block E s pending = Some (Inr blk, s')"
  shows "below_target (BlockHeader_hash (header blk)) = Inr True
         \<and> blocks_by_hash s' = AList.update (BlockHeader_hash (header blk)) blk (blocks_by_hash s)
         \<and> height_tip_hash s' = BlockHeader_hash (header blk)"
proof -
  obtain r s1 where sel: "select_valid E pending [] s = (r, s1)"
    by (cases "select_valid E pending [] s")
  with select_valid_frame [of E pending "[]" s] have [simp]: "s1 = s"
    by simp
  from assms sel show ?thesis
    by (auto simp: mine_block_def commit_block_def apply_transactions_chain pow_search_below
        split: sum.splits if_splits option.splits)
qed

lemma receive_block_on_stores:
  assumes "receive_block_on E s mp block = (r, s', mp')"
  shows "blocks_by_hash s' = blocks_by_hash s
         \<or> (below_target (BlockHeader_hash (header block)) = Inr True
            \<and> blocks_by_hash s'
                = AList.update (BlockHeader_hash (header block)) block (blocks_by_hash s))"
proof -
  obtain v s1 where av: "all_valid E (txs block) s = (v, s1)"
    by (cases "all_valid E (txs block) s")
  with all_valid_frame [of E "txs block" s] have [simp]: "s1 = s"
    by simp
  from assms av show ?thesis
    by (auto simp: receive_block_on_def accept_block_def apply_transactions_chain
        split: sum.splits if_splits)
qed

section \<open>Asset history\<close>

lemma first_match_iff: "first_match a outs = (\<exists>out\<in>set outs. asset_id out = a)"
  by (induction outs) auto

lemma trace_txs_eq:
  "trace_txs a h bh txl res =
     res @ map (\<lambda>tx. (h, bh, tx)) (filter (\<lambda>tx. \<exists>out\<in>set (outputs tx). asset_id out = a) txl)"
  by (induction txl arbitrary: res) (simp_all add: first_match_iff)

lemma trace_blocks_eq: "trace_blocks a bs res = res @ concat (map (hits a) bs)"
  by (induction bs arbitrary: res) (auto simp: trace_txs_eq hits_def)

lemma sorted_desc_hits:
  assumes "sorted_wrt (\<ge>) (map (\<lambda>kv. height (header (snd kv))) bs)"
  shows "sorted_wrt (\<ge>) (map fst (concat (map (hits a) bs)))"
  using assms
proof (induction bs)
  case Nil
  then show ?case by simp
next
  case (Cons kv bs)
  have "\<forall>x\<in>set (map fst (hits a kv)). x = height (header (snd kv))"
    by (auto simp: hits_def)
  moreover have "\<forall>y\<in>set (map fst (concat (map (hits a) bs))). y \<le> height (header (snd kv))"
    using Cons.prems by (auto simp: hits_def)
  moreover have "sorted_wrt (\<ge>) (map fst (hits a kv))"
    by (simp add: hits_def sorted_wrt_map sorted_wrt_iff_nth_less)
  ultimately show ?case
    using Cons by (auto simp: sorted_wrt_append)
qed

lemma sort_reverse_desc: "sorted_wrt (\<ge>) (map key (sort_reverse key xs))"
proof -
  have "sorted (map key (sort_key key (rev xs)))"
    by simp
  then have "sorted_wrt (\<ge>) (rev (map key (sort_key key (rev xs))))"
    by (simp add: sorted_wrt_rev)
  then show ?thesis
    by (simp add: sort_reverse_def rev_map)
qed

lemma sort_reverse_mset: "mset (sort_reverse key xs) = mset xs"
  by (simp add: sort_reverse_def)

lemma sort_reverse_stable:
  "filter (\<lambda>x. key x = k) (sort_reverse key xs) = filter (\<lambda>x. key x = k) xs"
  by (simp add: sort_reverse_def rev_filter [symmetric] sort_key_stable)

text \<open>
  Claim C7, as the code has it.  \<open>trace_asset\<close> goes through every stored block once, newest
  first (the blocks sorted by height, descending, a permutation of the chain map's entries),
  and through the transactions of each block in order; every place in a block's list that
  holds a transaction with at least one output of the asset gives exactly one tuple
  \<open>(height, block_hash, tx)\<close>, however many of its outputs match, and the other places give
  none.  A transaction that is stored twice gives a tuple for each place it is stored at.  The
  heights of the result are in descending order.
\<close>

theorem trace_asset_spec:
  "trace_asset s a =
     concat (map (\<lambda>(bh, blk).
                map (\<lambda>tx. (height (header blk), bh, tx))
                  (filter (\<lambda>tx. \<exists>out\<in>set (outputs tx). asset_id out = a) (txs blk)))
            (sort_reverse (\<lambda>kv. height (header (snd kv))) (blocks_by_hash s)))
   \<and> mset (sort_reverse (\<lambda>kv. height (header (snd kv))) (blocks_by_hash s))
       = mset (blocks_by_hash s)
   \<and> sorted_wrt (\<ge>) (map fst (trace_asset s a))"
proof -
  have "hits a = (\<lambda>(bh, blk). map (\<lambda>tx. (height (header blk), bh, tx))
                  (filter (\<lambda>tx. \<exists>out\<in>set (outputs tx). asset_id out = a) (txs blk)))"
    by (auto simp: hits_def fun_eq_iff)
  then show ?thesis
    using sorted_desc_hits [OF sort_reverse_desc, of a "blocks_by_hash s"]
    by (simp add: trace_asset_def trace_blocks_eq sort_reverse_mset)
qed

section \<open>The walk from the tip\<close>

lemma chain_walk_acc:
  "chain_walk blocks cur visited (c1 @ c2) = c1 @ chain_walk blocks cur visited c2"
proof (induction blocks cur visited c2 arbitrary: c1 rule: chain_walk.induct)
  case (1 blocks cur visited c2)
  show ?case
    unfolding chain_walk.simps [of blocks cur visited "c1 @ c2"]
      chain_walk.simps [of blocks cur visited c2]
    using "1.IH" [of _ c1]
    by (auto split: option.splits)
qed

lemma chain_walk_step:
  "chain_walk blocks cur visited [] =
     (if cur \<noteq> [] \<and> cur \<notin> set visited then
        (case map_of blocks cur of
           None \<Rightarrow> []
         | Some blk \<Rightarrow>
             (if prev_hash (header blk) = zero_hash then [(cur, blk)]
              else (cur, blk) # chain_walk blocks (prev_hash (header blk)) (cur # visited) []))
      else [])"
proof -
  have "chain_walk blocks p (cur # visited) [(cur, blk)]
        = (cur, blk) # chain_walk blocks p (cur # visited) []" for p blk
    using chain_walk_acc [of blocks p "cur # visited" "[(cur, blk)]" "[]"] by simp
  then have "(if cur \<noteq> [] \<and> cur \<notin> set visited then
        (case map_of blocks cur of
           None \<Rightarrow> []
         | Some blk \<Rightarrow>
             (if prev_hash (header blk) = zero_hash then [] @ [(cur, blk)]
              else chain_walk blocks (prev_hash (header blk)) (cur # visited) ([] @ [(cur, blk)])))
      else []) =
     (if cur \<noteq> [] \<and> cur \<notin> set visited then
        (case map_of blocks cur of
           None \<Rightarrow> []
         | Some blk \<Rightarrow>
             (if prev_hash (header blk) = zero_hash then [(cur, blk)]
              else (cur, blk) # chain_walk blocks (prev_hash (header blk)) (cur # visited) []))
      else [])"
    by (auto split: option.splits)
  then show ?thesis
    using chain_walk.simps [of blocks cur visited "[]"] by simp
qed

lemma chain_walk_props_acc:
  "walk_ok blocks cur visited \<and> length (chain_walk blocks cur visited chain) \<ge> length chain"
proof (induction blocks cur visited chain rule: chain_walk.induct)
  case (1 blocks cur visited chain)
  then have IH: "\<And>blk. cur \<noteq> [] \<and> cur \<notin> set visited \<Longrightarrow> map_of blocks cur = Some blk
                \<Longrightarrow> prev_hash (header blk) \<noteq> zero_hash
                \<Longrightarrow> walk_ok blocks (prev_hash (header blk)) (cur # visited)"
    by blast
  have "length chain \<le> length (chain_walk blocks cur visited chain)"
    using chain_walk_acc [of blocks cur visited chain "[]"] by simp
  moreover have "walk_ok blocks cur visited"
  proof (cases "cur \<noteq> [] \<and> cur \<notin> set visited")
    case False
    then have w: "chain_walk blocks cur visited [] = []"
      by (subst chain_walk_step) auto
    from False show ?thesis
      unfolding walk_ok_def w by auto
  next
    case True
    show ?thesis
    proof (cases "map_of blocks cur")
      case None
      with True have w: "chain_walk blocks cur visited [] = []"
        by (subst chain_walk_step) auto
      from None show ?thesis
        unfolding walk_ok_def w by simp
    next
      case (Some blk)
      show ?thesis
      proof (cases "prev_hash (header blk) = zero_hash")
        case z: True
        with True Some have w: "chain_walk blocks cur visited [] = [(cur, blk)]"
          by (subst chain_walk_step) auto
        from True Some show ?thesis
          unfolding walk_ok_def w by simp
      next
        case nz: False
        let ?W = "chain_walk blocks (prev_hash (header blk)) (cur # visited) []"
        have w: "chain_walk blocks cur visited [] = (cur, blk) # ?W"
          using True Some nz by (subst chain_walk_step) auto
        have ih: "walk_ok blocks (prev_hash (header blk)) (cur # visited)"
          using IH [OF True Some nz] .
        then have "linked ((cur, blk) # ?W)"
          by (cases ?W) (auto simp: walk_ok_def)
        with ih True Some show ?thesis
          unfolding walk_ok_def w by auto
      qed
    qed
  qed
  ultimately show ?case
    by simp
qed

lemma chain_walk_props: "walk_ok blocks cur visited"
  using chain_walk_props_acc [of blocks cur visited "[]"] by simp

lemma chain_walk_stop_acc:
  "(chain_walk blocks cur visited [] = []
    \<or> stops_at blocks (visited @ map fst (chain_walk blocks cur visited []))
         (last (chain_walk blocks cur visited [])))
   \<and> length (chain_walk blocks cur visited chain) \<ge> length chain"
proof (induction blocks cur visited chain rule: chain_walk.induct)
  case (1 blocks cur visited chain)
  then have IH: "\<And>blk. cur \<noteq> [] \<and> cur \<notin> set visited \<Longrightarrow> map_of blocks cur = Some blk
      \<Longrightarrow> prev_hash (header blk) \<noteq> zero_hash
      \<Longrightarrow> chain_walk blocks (prev_hash (header blk)) (cur # visited) [] = []
          \<or> stops_at blocks
               ((cur # visited) @ map fst (chain_walk blocks (prev_hash (header blk)) (cur # visited) []))
               (last (chain_walk blocks (prev_hash (header blk)) (cur # visited) []))"
    by blast
  have "length chain \<le> length (chain_walk blocks cur visited chain)"
    using chain_walk_acc [of blocks cur visited chain "[]"] by simp
  moreover have "chain_walk blocks cur visited [] = []
    \<or> stops_at blocks (visited @ map fst (chain_walk blocks cur visited []))
         (last (chain_walk blocks cur visited []))"
  proof (cases "cur \<noteq> [] \<and> cur \<notin> set visited")
    case False
    then have "chain_walk blocks cur visited [] = []"
      by (subst chain_walk_step) auto
    then show ?thesis by simp
  next
    case True
    show ?thesis
    proof (cases "map_of blocks cur")
      case None
      with True have "chain_walk blocks cur visited [] = []"
        by (subst chain_walk_step) auto
      then show ?thesis by simp
    next
      case (Some blk)
      show ?thesis
      proof (cases "prev_hash (header blk) = zero_hash")
        case z: True
        with True Some have w: "chain_walk blocks cur visited [] = [(cur, blk)]"
          by (subst chain_walk_step) auto
        from z show ?thesis
          unfolding w by (simp add: stops_at_def)
      next
        case nz: False
        let ?W = "chain_walk blocks (prev_hash (header blk)) (cur # visited) []"
        have w: "chain_walk blocks cur visited [] = (cur, blk) # ?W"
          using True Some nz by (subst chain_walk_step) auto
        show ?thesis
        proof (cases "?W = []")
          case e: True
          have "walk_ok blocks (prev_hash (header blk)) (cur # visited)"
            by (rule chain_walk_props)
          with e have "prev_hash (header blk) = [] \<or> prev_hash (header blk) \<in> set (cur # visited)
              \<or> map_of blocks (prev_hash (header blk)) = None"
            by (simp add: walk_ok_def)
          with e show ?thesis
            unfolding w by (auto simp: stops_at_def)
        next
          case ne: False
          with IH [OF True Some nz]
          have "stops_at blocks ((cur # visited) @ map fst ?W) (last ?W)"
            by simp
          with ne show ?thesis
            unfolding w by (auto simp: stops_at_def)
        qed
      qed
    qed
  qed
  ultimately show ?case
    by simp
qed

lemma chain_walk_induct0:
  fixes P :: "(string \<times> Block) list \<Rightarrow> string \<Rightarrow> string list \<Rightarrow> bool"
  assumes "\<And>blocks cur visited.
      (\<And>blk. cur \<noteq> [] \<Longrightarrow> cur \<notin> set visited \<Longrightarrow> map_of blocks cur = Some blk
          \<Longrightarrow> prev_hash (header blk) \<noteq> zero_hash
          \<Longrightarrow> P blocks (prev_hash (header blk)) (cur # visited))
      \<Longrightarrow> P blocks cur visited"
  shows "P blocks cur visited"
proof -
  have "P blocks cur visited \<and> length (chain_walk blocks cur visited chain) \<ge> length chain"
    for chain
  proof (induction blocks cur visited chain rule: chain_walk.induct)
    case (1 blocks cur visited chain)
    have "P blocks cur visited"
      by (rule assms) (use 1 in blast)
    moreover have "length chain \<le> length (chain_walk blocks cur visited chain)"
      using chain_walk_acc [of blocks cur visited chain "[]"] by simp
    ultimately show ?case by simp
  qed
  then show ?thesis by simp
qed

lemma chain_walk_nonstop:
  "[] \<notin> set (map fst (chain_walk blocks cur visited []))
   \<and> list_all (\<lambda>x. prev_hash (header (snd x)) \<noteq> zero_hash)
        (butlast (chain_walk blocks cur visited []))"
proof (induction blocks cur visited rule: chain_walk_induct0)
  case (1 blocks cur visited)
  show ?case
  proof (cases "cur \<noteq> [] \<and> cur \<notin> set visited")
    case False
    then have "chain_walk blocks cur visited [] = []"
      by (subst chain_walk_step) auto
    then show ?thesis by simp
  next
    case True
    show ?thesis
    proof (cases "map_of blocks cur")
      case None
      with True have "chain_walk blocks cur visited [] = []"
        by (subst chain_walk_step) auto
      then show ?thesis by simp
    next
      case (Some blk)
      show ?thesis
      proof (cases "prev_hash (header blk) = zero_hash")
        case z: True
        with True Some have w: "chain_walk blocks cur visited [] = [(cur, blk)]"
          by (subst chain_walk_step) auto
        from True show ?thesis
          unfolding w by auto
      next
        case nz: False
        let ?W = "chain_walk blocks (prev_hash (header blk)) (cur # visited) []"
        have w: "chain_walk blocks cur visited [] = (cur, blk) # ?W"
          using True Some nz by (subst chain_walk_step) auto
        from True Some nz have "[] \<notin> set (map fst ?W)
            \<and> list_all (\<lambda>x. prev_hash (header (snd x)) \<noteq> zero_hash) (butlast ?W)"
          by (intro 1) auto
        with True nz show ?thesis
          unfolding w by auto
      qed
    qed
  qed
qed

lemma walk_from_exists: "walk_from blocks cur visited (chain_walk blocks cur visited [])"
proof -
  let ?W = "chain_walk blocks cur visited []"
  have ok: "walk_ok blocks cur visited"
    by (rule chain_walk_props)
  have st: "?W = [] \<or> stops_at blocks (visited @ map fst ?W) (last ?W)"
    using chain_walk_stop_acc [of blocks cur visited "[]"] by simp
  from ok st chain_walk_nonstop [of blocks cur visited] show ?thesis
    unfolding walk_from_def walk_ok_def by (cases ?W) auto
qed

lemma walk_from_unique:
  "walk_from blocks cur visited W \<Longrightarrow> chain_walk blocks cur visited [] = W"
proof (induction W arbitrary: cur visited)
  case Nil
  then show ?case
    by (subst chain_walk_step) (auto simp: walk_from_def)
next
  case (Cons x r)
  obtain h b where x: "x = (h, b)"
    by (cases x)
  from Cons.prems have c: "h = cur" "cur \<noteq> []" "cur \<notin> set visited" "map_of blocks cur = Some b"
    by (auto simp: walk_from_def x)
  show ?case
  proof (cases r)
    case Nil
    with Cons.prems c have "stops_at blocks (visited @ [cur]) (cur, b)"
      by (auto simp: walk_from_def x)
    then have "prev_hash (header b) = zero_hash
        \<or> chain_walk blocks (prev_hash (header b)) (cur # visited) [] = []"
      unfolding stops_at_def
      by (subst chain_walk_step) (auto split: option.splits)
    with c Nil show ?thesis
      by (subst chain_walk_step) (auto simp: x)
  next
    case (Cons y r')
    with Cons.prems have nz: "prev_hash (header b) \<noteq> zero_hash"
      and l: "fst y = prev_hash (header b)"
      by (simp_all add: walk_from_def x)
    have "walk_from blocks (prev_hash (header b)) (cur # visited) r"
      using Cons.prems l
      unfolding walk_from_def x Cons stops_at_def
      by (auto simp: c)
    then have "chain_walk blocks (prev_hash (header b)) (cur # visited) [] = r"
      by (rule Cons.IH)
    with c nz show ?thesis
      by (subst chain_walk_step) (simp add: x)
  qed
qed

text \<open>
  Claim C8, as the code has it.  \<open>chain_walk\<close> is a total function: the walk ends on every
  block map and every tip, whatever cycles or gaps the map has.  What it returns is the one
  list with these properties: it holds no hash twice and not the empty string; it holds only
  blocks of the map under their keys; each entry is followed by the entry its \<open>prev_hash\<close>
  names; no entry but the last has a \<open>prev_hash\<close> of sixty-four zeros; it is empty when the tip
  is the empty string or names no block, and only then; otherwise it starts at the tip, and
  its last block is one whose \<open>prev_hash\<close> is sixty-four zeros, or is the empty string, or is
  a hash already on the walk (a cycle), or names no block.  The empty string is the case the
  claim leaves out: \<open>while cur_hash and ...\<close> stops there.
\<close>

theorem build_chain_from_tip_walk:
  "(build_chain_from_tip s = W) =
     (distinct (map fst W)
      \<and> [] \<notin> set (map fst W)
      \<and> list_all (\<lambda>(h, b). map_of (blocks_by_hash s) h = Some b) W
      \<and> linked W
      \<and> list_all (\<lambda>x. prev_hash (header (snd x)) \<noteq> zero_hash) (butlast W)
      \<and> (case W of
           [] \<Rightarrow> height_tip_hash s = [] \<or> map_of (blocks_by_hash s) (height_tip_hash s) = None
         | x # r \<Rightarrow>
             fst x = height_tip_hash s \<and> stops_at (blocks_by_hash s) (map fst W) (last W)))"
proof -
  have "(build_chain_from_tip s = W) = walk_from (blocks_by_hash s) (height_tip_hash s) [] W"
    unfolding build_chain_from_tip_def
    using walk_from_exists [of "blocks_by_hash s" "height_tip_hash s" "[]"]
      walk_from_unique [of "blocks_by_hash s" "height_tip_hash s" "[]" W]
    by blast
  then show ?thesis
    by (cases W) (simp_all add: walk_from_def)
qed

text \<open>
  The claim as stated fails on a map that has a block under the empty string: the walk from
  \<open>b1\<close> stops at \<open>b1\<close>, whose \<open>prev_hash\<close> is not sixty-four zeros, is not on the walk, and names
  a block of the map.
\<close>

theorem build_chain_from_tip_empty_hash_counterexample:
  "build_chain_from_tip adversarial_chain
     = [(''b1'', \<lparr>header = \<lparr>height = 1, prev_hash = [], hdr_merkle_root = [], nonce = 0\<rparr>,
                  txs = []\<rparr>)]
   \<and> [] \<noteq> zero_hash
   \<and> [] \<notin> set (map fst (build_chain_from_tip adversarial_chain))
   \<and> map_of (blocks_by_hash adversarial_chain) [] \<noteq> None"
proof -
  have "build_chain_from_tip adversarial_chain
     = [(''b1'', \<lparr>header = \<lparr>height = 1, prev_hash = [], hdr_merkle_root = [], nonce = 0\<rparr>,
                  txs = []\<rparr>)]"
    unfolding build_chain_from_tip_def adversarial_chain_def
    by (simp add: chain_walk.simps zero_hash_def)
  then show ?thesis
    by (simp add: adversarial_chain_def zero_hash_def)
qed

section \<open>Transactions without inputs are admitted and forwarded\<close>

lemma validate_coinbase:
  "inputs tx = [] \<Longrightarrow> validate_transaction E s tx = (Inr (True, ''coinbase/genesis tx''), s)"
  by (simp add: validate_transaction_def)

lemma admit_props:
  assumes "n < length (nodes w)" "\<not> in_mempool w n (txid tx)"
  shows "length (nodes (admit w n tx)) = length (nodes w)"
    and "ledgers (admit w n tx) = ledgers w"
    and "peers (nodes (admit w n tx) ! m) = peers (nodes w ! m)"
    and "map_of (mempool (nodes w ! m)) k = Some v
          \<Longrightarrow> map_of (mempool (nodes (admit w n tx) ! m)) k = Some v"
    and "map_of (mempool (nodes (admit w n tx) ! n)) (txid tx) = Some tx"
  using assms
  by (auto simp: admit_def set_mempool_def set_ledger_def ledger_of_def in_mempool_def
      nth_list_update update_conv')

lemma flood_coinbase_step:
  assumes "inputs tx = []"
  shows "flood E tx (n # pending) w =
     (if length (nodes w) \<le> n \<or> in_mempool w n (txid tx) then flood E tx pending w
      else flood E tx (peers (nodes w ! n) @ pending) (admit w n tx))"
  by (subst flood.simps) (simp add: validate_coinbase [OF assms] admit_def)

lemma flood_coinbase:
  "inputs tx = [] \<Longrightarrow> flood_ok tx pending w (flood E tx pending w)"
proof (induction E tx pending w rule: flood.induct)
  case (1 E tx w)
  then show ?case
    by (simp add: flood_ok_def flood.simps)
next
  case (2 E tx n pending w)
  note cb = \<open>inputs tx = []\<close>
  show ?case
  proof (cases "length (nodes w) \<le> n")
    case True
    then have "flood_ok tx pending w (flood E tx pending w)"
      using "2.IH"(1) cb by simp
    with True show ?thesis
      by (simp add: flood_coinbase_step [OF cb] flood_ok_def)
  next
    case False
    show ?thesis
    proof (cases "in_mempool w n (txid tx)")
      case True
      then have ok: "flood_ok tx pending w (flood E tx pending w)"
        using "2.IH"(2) False cb by simp
      from True obtain v where "map_of (mempool (nodes w ! n)) (txid tx) = Some v"
        by (auto simp: in_mempool_def)
      with ok False have "in_mempool (snd (flood E tx pending w)) n (txid tx)"
        by (auto simp: flood_ok_def in_mempool_def)
      with ok True False show ?thesis
        by (simp add: flood_coinbase_step [OF cb] flood_ok_def)
    next
      case nm: False
      let ?w1 = "admit w n tx"
      let ?r = "flood E tx (peers (nodes w ! n) @ pending) ?w1"
      have n: "n < length (nodes w)"
        using False by simp
      have ok: "flood_ok tx (peers (nodes w ! n) @ pending) ?w1 ?r"
        using "2.IH"(4) [of "Inr (True, ''coinbase/genesis tx'')" "ledger_of w n"
            "(True, ''coinbase/genesis tx'')" True "''coinbase/genesis tx''"] False nm cb
        by (simp add: validate_coinbase admit_def)
      have "in_mempool (snd ?r) n (txid tx)"
        using ok admit_props(1,5) [OF n nm] n
        by (auto simp: flood_ok_def in_mempool_def)
      with ok admit_props(1-4) [OF n nm] False nm show ?thesis
        by (simp add: flood_coinbase_step [OF cb] flood_ok_def)
    qed
  qed
qed

text \<open>
  Claim C10.  A transaction with no inputs is accepted by \<open>validate_transaction\<close> on every
  ledger, with reason \<open>coinbase/genesis tx\<close>, whatever its outputs are.  So
  \<open>receive_transaction\<close> at a node that does not hold its txid raises nothing, puts it in the
  node's mempool under its txid, and hands it to every peer: afterwards every peer holds
  an entry for the txid as well.  (The last hypothesis says that peer references name
  nodes.)
\<close>

theorem receive_transaction_coinbase:
  assumes "inputs tx = []"
    and "n < length (nodes w)"
    and "\<not> in_mempool w n (txid tx)"
    and "\<forall>nd\<in>set (nodes w). \<forall>p\<in>set (peers nd). p < length (nodes w)"
  shows "fst (validate_transaction E s tx) = Inr (True, ''coinbase/genesis tx'')
    \<and> fst (receive_transaction E w n tx) = None
    \<and> map_of (mempool (nodes (snd (receive_transaction E w n tx)) ! n)) (txid tx) = Some tx
    \<and> (\<forall>p\<in>set (peers (nodes w ! n)). in_mempool (snd (receive_transaction E w n tx)) p (txid tx))"
proof -
  let ?w1 = "admit w n tx"
  have r: "receive_transaction E w n tx = flood E tx (peers (nodes w ! n)) ?w1"
    using assms(2,3)
    by (simp add: receive_transaction_def flood_coinbase_step [OF assms(1)])
  have ok: "flood_ok tx (peers (nodes w ! n)) ?w1 (flood E tx (peers (nodes w ! n)) ?w1)"
    by (rule flood_coinbase [OF assms(1)])
  have valid: "\<forall>p\<in>set (peers (nodes w ! n)). p < length (nodes w)"
    using assms(2,4) by (meson nth_mem)
  show ?thesis
    using ok admit_props(1,5) [OF assms(2,3)] assms(2) valid
    by (auto simp: r flood_ok_def validate_coinbase [OF assms(1)])
qed

text \<open>
  The theorem on three meshed nodes whose shared ledger already has its genesis block: the
  minting transaction \<open>tx_mint\<close> is valid there, and ends up in all three mempools.
\<close>

theorem receive_transaction_coinbase_witness:
  "fst (validate_transaction no_ecdsa ledger1 tx_mint) = Inr (True, ''coinbase/genesis tx'')
   \<and> blocks_by_hash ledger1 \<noteq> []
   \<and> fst (receive_transaction no_ecdsa mesh3 0 tx_mint) = None
   \<and> map_of (mempool (nodes (snd (receive_transaction no_ecdsa mesh3 0 tx_mint)) ! 0)) (txid tx_mint)
       = Some tx_mint
   \<and> in_mempool (snd (receive_transaction no_ecdsa mesh3 0 tx_mint)) 1 (txid tx_mint)
   \<and> in_mempool (snd (receive_transaction no_ecdsa mesh3 0 tx_mint)) 2 (txid tx_mint)"
proof -
  have h: "inputs tx_mint = []" "0 < length (nodes mesh3)" "\<not> in_mempool mesh3 0 (txid tx_mint)"
    "\<forall>nd\<in>set (nodes mesh3). \<forall>p\<in>set (peers nd). p < length (nodes mesh3)"
    by (simp_all add: tx_mint_def mesh3_def in_mempool_def)
  have "peers (nodes mesh3 ! 0) = [1, 2]"
    by (simp add: mesh3_def)
  moreover have "blocks_by_hash ledger1 \<noteq> []"
    by (simp add: ledger1_def add_genesis_block_def empty_chain_def)
  ultimately show ?thesis
    using receive_transaction_coinbase [OF h, of no_ecdsa ledger1]
    by simp
qed

section \<open>The hashes of the worked ledger, recomputed\<close>

lemma len_acc: "len_acc xs n = length xs + n"
  by (induction xs arbitrary: n) auto

lemma sha256_digest_eval: "sha256_digest m = sha_run m (len_acc m 0)"
  by (simp add: sha256_digest_def sha_run_def sha_pad_def len_acc be_bytes8_def be_bytes4_def)

lemma sched_extend_unfold:
  "sched_extend n ws =
     (if n = 0 then []
      else sched_step (n - 1) (tl ws) (sched_word (ws ! 14) (ws ! 9) (ws ! 1) (ws ! 0)))"
  by (cases n) simp_all

lemma sha_blocks_unfold:
  "sha_blocks n hs bs =
     (if n = 0 then hs else sha_blocks (n - 1) (compress hs (take 64 bs)) (drop 64 bs))"
  by (cases n) simp_all

lemma replicate_unfold: "replicate n x = (if n = 0 then [] else x # replicate (n - 1) x)"
  by (cases n) simp_all

lemmas sha_eval = sha256_hex_def bytes_hex_def hex_byte_def hexdigits_def
  sha256_digest_eval sha_run_def be_bytes8_def be_bytes4_def compress_def sched_def
  rnd_def rnd_out_def sched_word_def maj_def ch_def bsig0_def bsig1_def ssig0_def ssig1_def
  rotr_def add32_def K256_def H256_def
  sched_extend_unfold [of "numeral n" for n] sha_blocks_unfold [of "numeral n" for n]
  replicate_unfold [of "numeral n" for n]

lemmas ser_eval = serialize_def TxOutput_to_dict_def TxInput_to_dict_def BlockHeader_to_dict_def
  json_dict_def json_list_def json_key_def json_str_def json_escape_char_def
  encode_utf8_def utf8_char_def str_int_def digit_char_def zero_hash_def
  str_nat.simps [of "numeral n" for n] str_nat.simps [of 0] str_nat.simps [of "Suc 0"]

lemma genesis0_hash:
  "BlockHeader_hash (header genesis0)
     = ''c503ff5f47aa15165024ce2871c50511cbbd5659cd178b242e6bdf2c224530cf''"
  by (simp add: BlockHeader_hash_def genesis0_def ser_eval sha_eval)

lemma block1_hash:
  "BlockHeader_hash (header block1)
     = ''00000d4749bbb190a5d8239381f5318e23f36792fa3c8e906c6f82eac018ff88''"
  by (simp add: BlockHeader_hash_def block1_def ser_eval sha_eval)

lemma wallet0_pubkey_hash:
  "Wallet_pubkey_hash wallet0
     = ''09c0b2d1a486c439a87bcba6b46a7a1a23f3897cc83a94521a96da5c23bc58db''"
  by (simp add: Wallet_pubkey_hash_def wallet0_def sha_eval)

lemma genesis_txid:
  "compute_txid []
     [\<lparr>asset_id = ''asset-0'',
       pubkey_hash = ''09c0b2d1a486c439a87bcba6b46a7a1a23f3897cc83a94521a96da5c23bc58db'',
       portion = 100\<rparr>]
     = ''3dcfb7a97831cc1aca740cf7574759894c12aa1222c5363a02c135b885e4079f''"
  by (simp add: compute_txid_def ser_eval sha_eval)

lemma tx_mint_txid:
  "compute_txid [] (outputs tx_mint)
     = ''c9aea761095ad1636d230b36e0c37098aa4df0d120cb9e4a2f8f3ccd1dafcd57''"
  by (simp add: compute_txid_def tx_mint_def ser_eval sha_eval)

lemma genesis_txid_twice_hash:
  "sha256_hex (genesis_txid_bytes @ genesis_txid_bytes)
     = ''74773214814ded962345ba4eb4a6b0d9344692cd5cf87d8a207c42e9256093b0''"
  by (simp add: genesis_txid_bytes_def sha_eval)

section \<open>The worked ledger, step by step\<close>

lemma create_genesis_wallet0: "create_genesis 1 [wallet0] = Inr genesis0"
proof -
  have tx: "genesis_tx 0 wallet0 = hd (txs genesis0)"
    by (simp add: genesis_tx_def new_Transaction_def wallet0_pubkey_hash genesis_txid genesis0_def
        str_int_def str_nat.simps [of 0] digit_char_def)
  have "bytes_hex genesis_txid_bytes = txid (hd (txs genesis0))"
    by (simp add: genesis_txid_bytes_def genesis0_def bytes_hex_def hex_byte_def hexdigits_def)
  moreover have "bytes_fromhex (txid (hd (txs genesis0))) = Inr genesis_txid_bytes"
    by (simp add: genesis_txid_bytes_def genesis0_def hexval_def digit_value_def is_space_def)
  ultimately have "merkle_root [txid (hd (txs genesis0))] = Inr (txid (hd (txs genesis0)))"
    by (simp add: merkle_root_def merkle_levels_single)
  then show ?thesis
    using tx by (simp add: create_genesis_def genesis0_def)
qed

lemma txs_genesis0:
  "txs genesis0 = [\<lparr>inputs = [], outputs = [\<lparr>asset_id = ''asset-0'', pubkey_hash = ''09c0b2d1a486c439a87bcba6b46a7a1a23f3897cc83a94521a96da5c23bc58db'', portion = 100\<rparr>], txid = ''3dcfb7a97831cc1aca740cf7574759894c12aa1222c5363a02c135b885e4079f''\<rparr>]"
  by (simp add: genesis0_def)

lemma ledger1_eval:
  "ledger1 =
     \<lparr>blocks_by_hash = [(''c503ff5f47aa15165024ce2871c50511cbbd5659cd178b242e6bdf2c224530cf'', genesis0)],
      height_tip_hash = ''c503ff5f47aa15165024ce2871c50511cbbd5659cd178b242e6bdf2c224530cf'',
      utxo = [((''3dcfb7a97831cc1aca740cf7574759894c12aa1222c5363a02c135b885e4079f'', 0), \<lparr>asset_id = ''asset-0'', pubkey_hash = ''09c0b2d1a486c439a87bcba6b46a7a1a23f3897cc83a94521a96da5c23bc58db'', portion = 100\<rparr>)]\<rparr>"
  by (simp add: ledger1_def add_genesis_block_def empty_chain_def genesis0_hash txs_genesis0
      add_output_def)

lemma below_target_block1: "below_target (BlockHeader_hash (header block1)) = Inr True"
  by (simp add: block1_hash below_target_def int16_def TARGET_HEX_def hexval_def digit_value_def)

lemma below_target_genesis0: "below_target (BlockHeader_hash (header genesis0)) = Inr False"
  by (simp add: genesis0_hash below_target_def int16_def TARGET_HEX_def hexval_def digit_value_def)

lemma merkle_root_tx_mint: "merkle_root [txid tx_mint] = Inr (txid tx_mint)"
  by (simp add: merkle_root_def merkle_levels_single tx_mint_def hexval_def digit_value_def
      is_space_def bytes_hex_def hex_byte_def hexdigits_def)

lemma header_block1:
  "\<lparr>height = 1, prev_hash = ''c503ff5f47aa15165024ce2871c50511cbbd5659cd178b242e6bdf2c224530cf'', hdr_merkle_root = txid tx_mint, nonce = 0\<rparr> = header block1"
  by (simp add: block1_def tx_mint_def)

lemma pow_search_block1: "pow_search 1 ''c503ff5f47aa15165024ce2871c50511cbbd5659cd178b242e6bdf2c224530cf'' (txid tx_mint) 0 = Some (Inr (header block1))"
  by (subst pow_search.simps) (simp add: header_block1 below_target_block1)

lemma tip_ledger1: "tip ledger1 = Some genesis0"
  by (simp add: ledger1_eval tip_def)

lemma commit_block1: "commit_block ledger1 (header block1) [tx_mint] = ledger2"
proof -
  have b: "\<lparr>header = header block1, txs = [tx_mint]\<rparr> = block1"
    by (simp add: block1_def)
  have ne: "BlockHeader_hash (header genesis0) \<noteq> BlockHeader_hash (header block1)"
    by (simp add: genesis0_hash block1_hash)
  show ?thesis
    unfolding commit_block_def b
    using ne
    by (simp add: ledger1_eval ledger2_def genesis0_hash block1_hash apply_transaction_def
        add_output_def tx_mint_def)
qed

lemma mine_block_tx_mint: "mine_block no_ecdsa ledger1 [tx_mint] = Some (Inr block1, ledger2)"
proof -
  have "select_valid no_ecdsa [tx_mint] [] ledger1 = (Inr [tx_mint], ledger1)"
    by (simp add: validate_transaction_def tx_mint_def MAX_TX_PER_BLOCK_def)
  moreover have "next_height ledger1 = 1" "next_prev_hash ledger1 = ''c503ff5f47aa15165024ce2871c50511cbbd5659cd178b242e6bdf2c224530cf''"
    by (simp_all add: next_height_def next_prev_hash_def tip_ledger1 genesis0_hash)
      (simp add: genesis0_def)
  moreover have "\<lparr>header = header block1, txs = [tx_mint]\<rparr> = block1"
    by (simp add: block1_def)
  ultimately show ?thesis
    by (simp add: mine_block_def merkle_root_tx_mint pow_search_block1 commit_block1)
qed

lemma receive_block_on_empty:
  "receive_block_on no_ecdsa empty_chain [(txid tx_mint, tx_mint)] block1 =
     (None,
      \<lparr>blocks_by_hash = [(''00000d4749bbb190a5d8239381f5318e23f36792fa3c8e906c6f82eac018ff88'', block1)], height_tip_hash = ''00000d4749bbb190a5d8239381f5318e23f36792fa3c8e906c6f82eac018ff88'',
        utxo = [((''c9aea761095ad1636d230b36e0c37098aa4df0d120cb9e4a2f8f3ccd1dafcd57'', 0), \<lparr>asset_id = ''asset-0'', pubkey_hash = ''76eafa6bc4a21bfc4c946393abf386040569de1e700cd66f2cc73341a5ee2a04'', portion = 50\<rparr>)]\<rparr>,
      [])"
proof -
  have tip0: "height_tip_hash empty_chain = []"
    by (simp add: empty_chain_def)
  have t: "txs block1 = [tx_mint]"
    by (simp add: block1_def)
  have av: "all_valid no_ecdsa (txs block1) empty_chain = (Inr True, empty_chain)"
    by (simp add: t validate_transaction_def tx_mint_def)
  have acc: "accept_block empty_chain block1 =
      \<lparr>blocks_by_hash = [(''00000d4749bbb190a5d8239381f5318e23f36792fa3c8e906c6f82eac018ff88'', block1)], height_tip_hash = ''00000d4749bbb190a5d8239381f5318e23f36792fa3c8e906c6f82eac018ff88'',
        utxo = [((''c9aea761095ad1636d230b36e0c37098aa4df0d120cb9e4a2f8f3ccd1dafcd57'', 0), \<lparr>asset_id = ''asset-0'', pubkey_hash = ''76eafa6bc4a21bfc4c946393abf386040569de1e700cd66f2cc73341a5ee2a04'', portion = 50\<rparr>)]\<rparr>"
    by (simp add: accept_block_def block1_hash t apply_transaction_def add_output_def
        empty_chain_def tx_mint_def)
  have pop: "pop_all [(txid tx_mint, tx_mint)] (txs block1) = []"
    by (simp add: t)
  show ?thesis
    by (simp add: receive_block_on_def tip0 below_target_block1 av acc pop)
qed

lemma receive_block_on_orphan:
  "receive_block_on no_ecdsa empty_chain [(txid tx_mint, tx_mint)] block1 = (None, ledger_orphan, [])"
  by (simp add: receive_block_on_empty ledger_orphan_def)

lemma receive_block_on_ledger1:
  "receive_block_on no_ecdsa ledger1 [(txid tx_mint, tx_mint)] block1 = (None, ledger2, [])"
proof -
  have tip1: "height_tip_hash ledger1 = prev_hash (header block1)"
    by (simp add: ledger1_eval block1_def)
  have t: "txs block1 = [tx_mint]"
    by (simp add: block1_def)
  have av: "all_valid no_ecdsa (txs block1) ledger1 = (Inr True, ledger1)"
    by (simp add: t validate_transaction_def tx_mint_def)
  have ne: "BlockHeader_hash (header genesis0) \<noteq> BlockHeader_hash (header block1)"
    by (simp add: genesis0_hash block1_hash)
  have acc: "accept_block ledger1 block1 = ledger2"
    unfolding accept_block_def t using ne
    by (simp add: ledger1_eval ledger2_def genesis0_hash block1_hash apply_transaction_def
        add_output_def tx_mint_def)
  have pop: "pop_all [(txid tx_mint, tx_mint)] (txs block1) = []"
    by (simp add: t)
  show ?thesis
    by (simp add: receive_block_on_def tip1 below_target_block1 av acc pop)
qed

lemma new_tx_mint: "new_Transaction [] (outputs tx_mint) = tx_mint"
  by (simp add: new_Transaction_def tx_mint_txid) (simp add: tx_mint_def)

lemma fromhex_genesis_txid: "bytes_fromhex ''3dcfb7a97831cc1aca740cf7574759894c12aa1222c5363a02c135b885e4079f'' = Inr genesis_txid_bytes"
  by (simp add: genesis_txid_bytes_def hexval_def digit_value_def is_space_def)

lemma hex_genesis_txid: "bytes_hex genesis_txid_bytes = ''3dcfb7a97831cc1aca740cf7574759894c12aa1222c5363a02c135b885e4079f''"
  by (simp add: genesis_txid_bytes_def bytes_hex_def hex_byte_def hexdigits_def)

lemma merkle_root_hex:
  assumes "bytes_fromhex t = Inr b" and "bytes_hex b = t"
  shows "merkle_root [t] = Inr t"
  using assms by (simp add: merkle_root_def merkle_levels_single)

lemma merkle_root_genesis_txid: "merkle_root [''3dcfb7a97831cc1aca740cf7574759894c12aa1222c5363a02c135b885e4079f''] = Inr ''3dcfb7a97831cc1aca740cf7574759894c12aa1222c5363a02c135b885e4079f''"
  by (rule merkle_root_hex [OF fromhex_genesis_txid hex_genesis_txid])

section \<open>Asset conservation\<close>

text \<open>
  Claim C1 does not hold of the code.  A transaction without inputs is valid whenever it
  arrives (\<open>validate_transaction\<close> returns before it looks at the outputs), \<open>mine_block\<close>
  selects it, and \<open>apply_transaction\<close> adds its outputs to the UTXO set.  On the ledger that
  holds the genesis block \<open>create_genesis\<close> builds for one wallet, 100 of \<open>asset-0\<close> are
  unspent; \<open>tx_mint\<close> is a well-formed transaction without inputs that pays 50 of \<open>asset-0\<close>;
  mining it succeeds at nonce 0, and 150 of \<open>asset-0\<close> are unspent afterwards.
\<close>

theorem coinbase_after_genesis_mints:
  "create_genesis 1 [wallet0] = Inr genesis0
   \<and> unspent_portion (add_genesis_block empty_chain genesis0) ''asset-0'' = 100
   \<and> new_Transaction [] (outputs tx_mint) = tx_mint
   \<and> mine_block no_ecdsa (add_genesis_block empty_chain genesis0) [tx_mint] = Some (Inr block1, ledger2)
   \<and> unspent_portion ledger2 ''asset-0'' = 150"
proof -
  have "unspent_portion ledger1 ''asset-0'' = 100"
    by (simp add: unspent_portion_def ledger1_eval)
  moreover have "unspent_portion ledger2 ''asset-0'' = 150"
    by (simp add: unspent_portion_def ledger2_def)
  ultimately show ?thesis
    using create_genesis_wallet0 new_tx_mint mine_block_tx_mint
    by (simp add: ledger1_def)
qed

section \<open>The Merkle root of the genesis txid\<close>

text \<open>The root of the one-element list that holds the genesis txid is that txid.\<close>

theorem merkle_root_single_witness:
  "merkle_root [''3dcfb7a97831cc1aca740cf7574759894c12aa1222c5363a02c135b885e4079f''] = Inr ''3dcfb7a97831cc1aca740cf7574759894c12aa1222c5363a02c135b885e4079f''"
proof -
  have "merkle_root [''3dcfb7a97831cc1aca740cf7574759894c12aa1222c5363a02c135b885e4079f'']
      = (case bytes_fromhex ''3dcfb7a97831cc1aca740cf7574759894c12aa1222c5363a02c135b885e4079f'' of Inl e \<Rightarrow> Inl e | Inr b \<Rightarrow> Inr (bytes_hex b))"
    using merkle_root_single [of "''3dcfb7a97831cc1aca740cf7574759894c12aa1222c5363a02c135b885e4079f''" "[]"] by (rule conjunct1)
  then show ?thesis
    unfolding fromhex_genesis_txid by (simp add: hex_genesis_txid)
qed

text \<open>
  It is not the SHA-256 of the txid's bytes concatenated with themselves, which is
  \<open>74773214...\<close>: Claim C2 as stated fails at the genesis txid.
\<close>

theorem merkle_root_single_counterexample:
  "bytes_fromhex ''3dcfb7a97831cc1aca740cf7574759894c12aa1222c5363a02c135b885e4079f'' = Inr genesis_txid_bytes
   \<and> merkle_root [''3dcfb7a97831cc1aca740cf7574759894c12aa1222c5363a02c135b885e4079f''] = Inr ''3dcfb7a97831cc1aca740cf7574759894c12aa1222c5363a02c135b885e4079f''
   \<and> sha256_hex (genesis_txid_bytes @ genesis_txid_bytes)
       = ''74773214814ded962345ba4eb4a6b0d9344692cd5cf87d8a207c42e9256093b0''
   \<and> merkle_root [''3dcfb7a97831cc1aca740cf7574759894c12aa1222c5363a02c135b885e4079f''] \<noteq> Inr (sha256_hex (genesis_txid_bytes @ genesis_txid_bytes))"
  unfolding fromhex_genesis_txid merkle_root_genesis_txid genesis_txid_twice_hash
  by simp

section \<open>Proof of work, and the genesis block\<close>

text \<open>
  Claim C3, as the code has it.  A block that \<open>mine_block\<close> returns has a header hash below
  the target, and it is the one entry that \<open>mine_block\<close> adds to the chain map; when
  \<open>mine_block\<close> fails the ledger is as it was.  \<open>receive_block\<close> either leaves the chain map as
  it was, or the block it stores has a header hash below the target.  Nothing is said of
  \<open>add_genesis_block\<close>, which stores whatever it is given.
\<close>

theorem stored_blocks_meet_target:
  "(mine_block E s pending = Some (Inr blk, s1) \<longrightarrow>
      below_target (BlockHeader_hash (header blk)) = Inr True
      \<and> blocks_by_hash s1 = AList.update (BlockHeader_hash (header blk)) blk (blocks_by_hash s))
   \<and> (mine_block E s pending = Some (Inl e, s1) \<longrightarrow> s1 = s)
   \<and> (receive_block_on E s mp block = (r, s2, mp2) \<longrightarrow>
        blocks_by_hash s2 = blocks_by_hash s
        \<or> (below_target (BlockHeader_hash (header block)) = Inr True
           \<and> blocks_by_hash s2
               = AList.update (BlockHeader_hash (header block)) block (blocks_by_hash s)))"
  using mine_block_stores [of E s pending blk s1] mine_block_error_frame [of E s pending e s1]
    receive_block_on_stores [of E s mp block r s2 mp2]
  by blast

text \<open>
  On the worked ledger: mining \<open>tx_mint\<close>, mining nothing, and receiving \<open>block1\<close> from a
  peer.
\<close>

theorem stored_blocks_meet_target_witness:
  "mine_block no_ecdsa ledger1 [tx_mint] = Some (Inr block1, ledger2)
   \<and> mine_block no_ecdsa ledger1 [] = Some (Inl (RuntimeError ''no valid transactions to mine''), ledger1)
   \<and> receive_block_on no_ecdsa ledger1 [(txid tx_mint, tx_mint)] block1 = (None, ledger2, [])
   \<and> below_target (BlockHeader_hash (header block1)) = Inr True
   \<and> blocks_by_hash ledger2
       = AList.update (BlockHeader_hash (header block1)) block1 (blocks_by_hash ledger1)"
proof -
  have e: "mine_block no_ecdsa ledger1 [] = Some (Inl (RuntimeError ''no valid transactions to mine''), ledger1)"
    by (simp add: mine_block_def)
  show ?thesis
    using stored_blocks_meet_target [of no_ecdsa ledger1 "[tx_mint]" block1 ledger2
        "RuntimeError ''no valid transactions to mine''" "[(txid tx_mint, tx_mint)]" block1 None
        ledger2 "[]"]
      stored_blocks_meet_target [of no_ecdsa ledger1 "[]" block1 ledger1
        "RuntimeError ''no valid transactions to mine''" "[(txid tx_mint, tx_mint)]" block1 None
        ledger2 "[]"]
      mine_block_tx_mint receive_block_on_ledger1 e
    by simp
qed

text \<open>
  The genesis block that \<open>create_genesis\<close> builds for \<open>wallet0\<close> has nonce 0 and no search is
  made: its header hash \<open>c503ff5f...\<close> is not below the target \<open>00000fff...\<close>, and
  \<open>add_genesis_block\<close> stores it.  Claim C3 as stated fails at this block.
\<close>

theorem genesis_block_counterexample:
  "create_genesis 1 [wallet0] = Inr genesis0
   \<and> map_of (blocks_by_hash (add_genesis_block empty_chain genesis0))
        (BlockHeader_hash (header genesis0)) = Some genesis0
   \<and> BlockHeader_hash (header genesis0) = ''c503ff5f47aa15165024ce2871c50511cbbd5659cd178b242e6bdf2c224530cf''
   \<and> below_target (BlockHeader_hash (header genesis0)) = Inr False"
  using create_genesis_wallet0 below_target_genesis0 genesis0_hash
  by (simp add: add_genesis_block_def empty_chain_def)

section \<open>Receiving a block on a chain with a tip, and on an empty chain\<close>

text \<open>
  A node of \<open>mesh3\<close>, whose tip is the genesis block, drops a block whose \<open>prev_hash\<close> is
  sixty-four zeros; the world is as it was.
\<close>

theorem receive_block_not_extending_tip_witness:
  "height_tip_hash (ledger_of mesh3 0) \<noteq> []
   \<and> prev_hash (header genesis0) \<noteq> height_tip_hash (ledger_of mesh3 0)
   \<and> receive_block no_ecdsa mesh3 0 genesis0 = (None, mesh3)"
proof -
  have "height_tip_hash (ledger_of mesh3 0) = ''c503ff5f47aa15165024ce2871c50511cbbd5659cd178b242e6bdf2c224530cf''"
    by (simp add: ledger_of_def mesh3_def ledger1_eval)
  moreover have "prev_hash (header genesis0) = zero_hash"
    by (simp add: genesis0_def)
  ultimately show ?thesis
    using receive_block_not_extending_tip [of mesh3 0 genesis0 no_ecdsa]
    by (simp add: zero_hash_def replicate_unfold [of "numeral n" for n])
qed

text \<open>
  On a node whose chain is empty the tip hash is the empty string, the guard
  \<open>if tip_hash and prev_hash != tip_hash\<close> is skipped, and \<open>block1\<close>, whose \<open>prev_hash\<close> is not
  the tip hash, is stored: the chain map, the tip, the UTXO set and the mempool all change.
  Claim C4 as stated fails on the empty chain.
\<close>

theorem receive_block_empty_chain_counterexample:
  "height_tip_hash (ledger_of lone_node 0) = []
   \<and> prev_hash (header block1) \<noteq> height_tip_hash (ledger_of lone_node 0)
   \<and> receive_block no_ecdsa lone_node 0 block1
       = (None,
          \<lparr>ledgers = [ledger_orphan],
           nodes = [\<lparr>node_id = ''F0'', blockchain = 0, mempool = [], peers = [],
                      last_mined_block = None\<rparr>]\<rparr>)
   \<and> snd (receive_block no_ecdsa lone_node 0 block1) \<noteq> lone_node"
proof -
  have l: "ledger_of lone_node 0 = empty_chain"
    and m: "mempool (nodes lone_node ! 0) = [(txid tx_mint, tx_mint)]"
    by (simp_all add: ledger_of_def lone_node_def)
  have p: "prev_hash (header block1) \<noteq> []"
    by (simp add: block1_def)
  have r: "receive_block no_ecdsa lone_node 0 block1
       = (None,
          \<lparr>ledgers = [ledger_orphan],
           nodes = [\<lparr>node_id = ''F0'', blockchain = 0, mempool = [], peers = [],
                      last_mined_block = None\<rparr>]\<rparr>)"
    unfolding receive_block_def l m receive_block_on_orphan
    by (simp add: set_mempool_def set_ledger_def lone_node_def)
  show ?thesis
    unfolding r l using p by (simp add: empty_chain_def lone_node_def)
qed

section \<open>\<open>add_genesis_block\<close> on an empty and on a non-empty chain\<close>

text \<open>
  On \<open>ledger1\<close>, with a block of two transactions under one txid: the genesis block and the
  genesis output stay, and under the shared txid the outputs of the second transaction
  lie over those of the first.
\<close>

theorem add_genesis_block_any_chain_witness:
  "map_of (blocks_by_hash (add_genesis_block ledger1 twin_block))
      (BlockHeader_hash (header genesis0)) = Some genesis0
   \<and> map_of (blocks_by_hash (add_genesis_block ledger1 twin_block))
      (BlockHeader_hash (header twin_block)) = Some twin_block
   \<and> height_tip_hash (add_genesis_block ledger1 twin_block) = BlockHeader_hash (header twin_block)
   \<and> map_of (utxo (add_genesis_block ledger1 twin_block)) (''77'', 0)
       = Some \<lparr>asset_id = ''asset-2'', pubkey_hash = ''cc'', portion = 100\<rparr>
   \<and> map_of (utxo (add_genesis_block ledger1 twin_block)) (''77'', 1)
       = Some \<lparr>asset_id = ''asset-1'', pubkey_hash = ''bb'', portion = 90\<rparr>
   \<and> map_of (utxo (add_genesis_block ledger1 twin_block))
        (''3dcfb7a97831cc1aca740cf7574759894c12aa1222c5363a02c135b885e4079f'', 0)
       = Some \<lparr>asset_id = ''asset-0'',
               pubkey_hash = ''09c0b2d1a486c439a87bcba6b46a7a1a23f3897cc83a94521a96da5c23bc58db'',
               portion = 100\<rparr>"
proof -
  have h: "header twin_block = header block1"
    by (simp add: twin_block_def)
  have t: "txs twin_block =
      [\<lparr>inputs = [], outputs = [\<lparr>asset_id = ''asset-1'', pubkey_hash = ''aa'', portion = 10\<rparr>,
                                \<lparr>asset_id = ''asset-1'', pubkey_hash = ''bb'', portion = 90\<rparr>],
         txid = ''77''\<rparr>,
       \<lparr>inputs = [], outputs = [\<lparr>asset_id = ''asset-2'', pubkey_hash = ''cc'', portion = 100\<rparr>],
         txid = ''77''\<rparr>]"
    by (simp add: twin_block_def)
  have ne: "BlockHeader_hash (header genesis0) \<noteq> BlockHeader_hash (header block1)"
    by (simp add: genesis0_hash block1_hash)
  have b: "map_of (blocks_by_hash ledger1) (BlockHeader_hash (header genesis0)) = Some genesis0"
    by (simp add: ledger1_eval genesis0_hash)
  have u: "map_of (utxo ledger1) (t, i) =
      (if t = ''3dcfb7a97831cc1aca740cf7574759894c12aa1222c5363a02c135b885e4079f'' \<and> i = 0
       then Some \<lparr>asset_id = ''asset-0'',
               pubkey_hash = ''09c0b2d1a486c439a87bcba6b46a7a1a23f3897cc83a94521a96da5c23bc58db'',
               portion = 100\<rparr>
       else None)" for t i
    by (simp add: ledger1_eval)
  show ?thesis
    using add_genesis_block_any_chain [of ledger1 twin_block "''77''" 0]
      add_genesis_block_any_chain [of ledger1 twin_block "''77''" 1]
      add_genesis_block_any_chain
        [of ledger1 twin_block "''3dcfb7a97831cc1aca740cf7574759894c12aa1222c5363a02c135b885e4079f''" 0]
      ne
    by (simp add: h t b u)
qed

text \<open>
  On \<open>ledger1\<close>, which is not empty, \<open>add_genesis_block\<close> does not fail: it stores \<open>block1\<close>,
  moves the tip and adds the output of \<open>tx_mint\<close>, which gives \<open>ledger2\<close>.  Claim C5 as stated
  fails on a non-empty chain.
\<close>

theorem add_genesis_block_nonempty_counterexample:
  "blocks_by_hash ledger1 \<noteq> []
   \<and> height_tip_hash ledger1 \<noteq> []
   \<and> add_genesis_block ledger1 block1 = ledger2
   \<and> ledger2 \<noteq> ledger1"
proof -
  have t: "txs block1 = [tx_mint]"
    by (simp add: block1_def)
  have ne: "BlockHeader_hash (header genesis0) \<noteq> BlockHeader_hash (header block1)"
    by (simp add: genesis0_hash block1_hash)
  have "add_genesis_block ledger1 block1 = ledger2"
    unfolding add_genesis_block_def t using ne
    by (simp add: ledger1_eval ledger2_def genesis0_hash block1_hash add_output_def tx_mint_def)
  then show ?thesis
    by (simp add: ledger1_eval ledger2_def)
qed

section \<open>Mining when nothing validates\<close>

lemma validate_tx_unspendable:
  "validate_transaction no_ecdsa ledger1 tx_unspendable = (Inr (False, ''missing UTXO for (00, 0)''), ledger1)"
  by (simp add: validate_transaction_def tx_unspendable_def new_Transaction_def get_output_of_def
      get_output_def ledger1_eval str_int_def str_nat.simps [of 0] digit_char_def)

lemma validate_tx_bad_pubkey:
  "validate_transaction no_ecdsa ledger1 tx_bad_pubkey = (Inl ValueError, ledger1)"
  by (simp add: validate_transaction_def tx_bad_pubkey_def new_Transaction_def get_output_of_def
      get_output_def ledger1_eval hexval_def digit_value_def is_space_def)

text \<open>
  On \<open>ledger1\<close>: nothing pending, a transaction that is answered \<open>(False, reason)\<close>, and that
  transaction followed by one on which validation raises.
\<close>

theorem mine_block_no_valid_transactions_witness:
  "mine_block no_ecdsa ledger1 []
     = Some (Inl (RuntimeError ''no valid transactions to mine''), ledger1)
   \<and> mine_block no_ecdsa ledger1 [tx_unspendable]
     = Some (Inl (RuntimeError ''no valid transactions to mine''), ledger1)
   \<and> mine_block no_ecdsa ledger1 [tx_unspendable, tx_bad_pubkey]
     = Some (Inl ValueError, ledger1)"
  using mine_block_no_valid_transactions [of "[]" no_ecdsa ledger1 ValueError ledger1]
    mine_block_no_valid_transactions [of "[tx_unspendable]" no_ecdsa ledger1 ValueError ledger1]
    mine_block_no_valid_transactions
      [of "[tx_unspendable, tx_bad_pubkey]" no_ecdsa ledger1 ValueError ledger1]
  by (simp add: validate_tx_unspendable validate_tx_bad_pubkey)

text \<open>
  \<open>tx_bad_pubkey\<close> does not validate: \<open>bytes.fromhex\<close> raises \<open>ValueError\<close> on its \<open>pubkey\<close>.
  With it as the one pending transaction \<open>mine_block\<close> fails with that \<open>ValueError\<close>, not with
  "no valid transactions": Claim C6 as stated fails here.
\<close>

theorem mine_block_raises_counterexample:
  "fst (validate_transaction no_ecdsa ledger1 tx_bad_pubkey) = Inl ValueError
   \<and> mine_block no_ecdsa ledger1 [tx_bad_pubkey] = Some (Inl ValueError, ledger1)
   \<and> ValueError \<noteq> RuntimeError ''no valid transactions to mine''"
  by (simp add: mine_block_def validate_tx_bad_pubkey)

section \<open>The history of an asset whose transaction is stored twice\<close>

text \<open>
  \<open>tx_mint\<close> twice in one stored block gives two tuples: Claim C7 as stated, with at most
  one tuple for each transaction, fails on this ledger.
\<close>

theorem trace_asset_twice_counterexample:
  "trace_asset (add_genesis_block empty_chain twice_block) ''asset-0''
     = [(1, ''00000d4749bbb190a5d8239381f5318e23f36792fa3c8e906c6f82eac018ff88'', tx_mint),
        (1, ''00000d4749bbb190a5d8239381f5318e23f36792fa3c8e906c6f82eac018ff88'', tx_mint)]
   \<and> length (filter (\<lambda>e. snd (snd e) = tx_mint)
         (trace_asset (add_genesis_block empty_chain twice_block) ''asset-0'')) = 2"
proof -
  have h: "BlockHeader_hash (header twice_block)
      = ''00000d4749bbb190a5d8239381f5318e23f36792fa3c8e906c6f82eac018ff88''"
    by (simp add: twice_block_def block1_hash)
  have b: "blocks_by_hash (add_genesis_block empty_chain twice_block)
      = [(''00000d4749bbb190a5d8239381f5318e23f36792fa3c8e906c6f82eac018ff88'', twice_block)]"
    by (simp add: add_genesis_block_def empty_chain_def h)
  have m: "first_match ''asset-0'' (outputs tx_mint)"
    by (simp add: tx_mint_def)
  have t: "txs twice_block = [tx_mint, tx_mint]" and g: "height (header twice_block) = 1"
    by (simp_all add: twice_block_def block1_def)
  have "trace_asset (add_genesis_block empty_chain twice_block) ''asset-0''
     = [(1, ''00000d4749bbb190a5d8239381f5318e23f36792fa3c8e906c6f82eac018ff88'', tx_mint),
        (1, ''00000d4749bbb190a5d8239381f5318e23f36792fa3c8e906c6f82eac018ff88'', tx_mint)]"
    by (simp add: trace_asset_def b sort_reverse_def t g m)
  then show ?thesis
    by simp
qed

section \<open>The walk on the worked ledgers\<close>

text \<open>
  The theorem read from right to left gives the walk: on \<open>ledger2\<close> from \<open>block1\<close> down to
  the genesis block, on the empty chain nothing, on the map with a block under the empty
  string the one block \<open>b1\<close>.
\<close>

theorem build_chain_from_tip_walk_witness:
  "build_chain_from_tip ledger2
     = [(''00000d4749bbb190a5d8239381f5318e23f36792fa3c8e906c6f82eac018ff88'', block1),
        (''c503ff5f47aa15165024ce2871c50511cbbd5659cd178b242e6bdf2c224530cf'', genesis0)]
   \<and> build_chain_from_tip empty_chain = []
   \<and> build_chain_from_tip adversarial_chain
       = [(''b1'', \<lparr>header = \<lparr>height = 1, prev_hash = [], hdr_merkle_root = [], nonce = 0\<rparr>,
                    txs = []\<rparr>)]"
proof -
  have p1: "prev_hash (header block1) = ''c503ff5f47aa15165024ce2871c50511cbbd5659cd178b242e6bdf2c224530cf''"
    by (simp add: block1_def)
  have p0: "prev_hash (header genesis0) = zero_hash"
    by (simp add: genesis0_def)
  have nz: "''c503ff5f47aa15165024ce2871c50511cbbd5659cd178b242e6bdf2c224530cf'' \<noteq> zero_hash"
    by (simp add: zero_hash_def replicate_unfold [of "numeral n" for n])
  have 1: "build_chain_from_tip ledger2
     = [(''00000d4749bbb190a5d8239381f5318e23f36792fa3c8e906c6f82eac018ff88'', block1),
        (''c503ff5f47aa15165024ce2871c50511cbbd5659cd178b242e6bdf2c224530cf'', genesis0)]"
    using build_chain_from_tip_walk [of ledger2
        "[(''00000d4749bbb190a5d8239381f5318e23f36792fa3c8e906c6f82eac018ff88'', block1),
          (''c503ff5f47aa15165024ce2871c50511cbbd5659cd178b242e6bdf2c224530cf'', genesis0)]"] nz
    by (simp add: ledger2_def stops_at_def p1 p0)
  have 2: "build_chain_from_tip empty_chain = []"
    using build_chain_from_tip_walk [of empty_chain "[]"]
    by (simp add: empty_chain_def)
  have 3: "build_chain_from_tip adversarial_chain
       = [(''b1'', \<lparr>header = \<lparr>height = 1, prev_hash = [], hdr_merkle_root = [], nonce = 0\<rparr>,
                    txs = []\<rparr>)]"
    using build_chain_from_tip_walk [of adversarial_chain
        "[(''b1'', \<lparr>header = \<lparr>height = 1, prev_hash = [], hdr_merkle_root = [], nonce = 0\<rparr>,
                    txs = []\<rparr>)]"]
    by (simp add: adversarial_chain_def stops_at_def)
  from 1 2 3 show ?thesis
    by simp
qed

end
